theory Spec2Isabelle
  imports Main "HOL-Library.AList"
begin

section \<open>CalDAV DELETE behaviours (twistedcaldav/method/delete\_common.py)\<close>

text \<open>
  The module orchestrates a DELETE over collaborators that live elsewhere: the
  file store (\<open>fileop.delete\<close>), quota accounting, the sync token and index of a
  collection, the memcache lock, the implicit scheduler and the sharing layer.
  The embedding keeps every function of the class \<open>DeleteResource\<close> and takes the
  collaborators as parameters: an environment gives, for each collaborator call,
  what that call answers after a given history of earlier calls. A function of
  the module maps the history so far to its outcome (a value or a raised
  exception) and to the list of collaborator calls it made, in order, each with
  the answer it received.
\<close>

subsection \<open>Data\<close>

type_synonym uri = string

text \<open>The status codes of \<open>twext.web2.responsecode\<close> the module uses.\<close>

abbreviation NO_CONTENT :: nat where "NO_CONTENT \<equiv> 204"
abbreviation BAD_REQUEST :: nat where "BAD_REQUEST \<equiv> 400"
abbreviation FORBIDDEN :: nat where "FORBIDDEN \<equiv> 403"
abbreviation CONFLICT :: nat where "CONFLICT \<equiv> 409"
abbreviation PRECONDITION_FAILED :: nat where "PRECONDITION_FAILED \<equiv> 412"

text \<open>
  A resource object, as far as the module looks at it: its file path
  (\<open>fp.path\<close>, \<open>fp.basename()\<close>), whether it exists, its \<open>ScheduleTag\<close> dead property
  (\<open>None\<close> when \<open>hasDeadProperty\<close> is false), and the answers of the type tests
  \<open>isCalendarCollectionResource\<close>, \<open>isPseudoCalendarCollectionResource\<close>,
  \<open>isAddressBookCollectionResource\<close> and \<open>isCollection\<close>.
\<close>

record resource =
  fp_path :: string
  fp_basename :: string
  res_exists :: bool
  deadScheduleTag :: "string option"
  isCalendarCollection :: bool
  isPseudoCalendarCollection :: bool
  isAddressBookCollection :: bool
  isCollection :: bool

record request =
  headers :: "string \<rightharpoonup> string"

text \<open>The fields \<open>__init__\<close> stores on \<open>self\<close>.\<close>

record DeleteResource =
  self_request :: request
  self_resource :: resource
  self_resource_uri :: uri
  self_parent :: resource
  self_depth :: string
  internal_request :: bool
  allowImplicitSchedule :: bool

text \<open>
  The value \<open>delete\<close> and the module's functions return: a bare status code, or
  a \<open>MultiStatusResponse\<close> whose children map a URI to the status of that child.
\<close>

datatype response = Status nat | MultiStatusResponse "(uri \<times> nat) list"

record calendar =
  resourceUID :: string

datatype scheduler = ImplicitScheduler

text \<open>\<open>MemcacheLock(namespace, locktoken, timeout)\<close>.\<close>

datatype lock = MemcacheLock string string nat

subsection \<open>Exceptions\<close>

text \<open>
  What a call can raise. \<open>HTTPError\<close> carries the status code of the response it
  wraps. \<open>UnboundLocalError\<close> is Python's error for reading a local variable that
  was never assigned. \<open>MemcacheLockTimeoutError\<close> is the class the two \<open>except\<close>
  clauses of the module name. \<open>OtherError\<close> stands for any other exception, told
  apart by its message. Every collaborator may raise any of them.
\<close>

datatype exc =
    HTTPError nat
  | UnboundLocalError
  | MemcacheLockTimeoutError
  | OtherError string

subsection \<open>Collaborator calls\<close>

text \<open>One constructor per collaborator method, with its arguments and its answer.\<close>

datatype event =
    Quota resource "exc + nat option"
  | QuotaSize resource "exc + int"
  | QuotaSizeAdjust resource int "exc + unit"
  | Delete uri resource string "exc + response"
  | BumpSyncToken resource "exc + nat"
  | IndexDeleteResource resource string nat "exc + unit"
  | ICalendarForUser resource "exc + calendar"
  | TestImplicitSchedulingDELETE resource calendar "exc + bool"
  | IsVirtualShare resource "exc + bool"
  | LockAcquire lock "exc + unit"
  | LockClean lock "exc + unit"
  | DoImplicitScheduling "exc + unit"
  | IsDefaultCalendar resource "exc + bool"
  | RemoveVirtualShare resource "exc + unit"
  | ListChildren resource "exc + string list"
  | LocateChildResource resource string "exc + resource"
  | IsShared resource "exc + bool"
  | DowngradeFromShare resource "exc + unit"
  | DeletedCalendar resource "exc + unit"
  | LocateParent resource uri "exc + resource"
  | FindCalendarCollections resource uri string "exc + (resource \<times> uri) list"
  | FindAddressBookCollections resource uri string "exc + (resource \<times> uri) list"

text \<open>
  The environment: the answer of each collaborator after the history of calls
  made so far. \<open>joinURL\<close> and the configuration flag are pure.
\<close>

record env =
  quota :: "event list \<Rightarrow> resource \<Rightarrow> exc + nat option"
  quotaSize :: "event list \<Rightarrow> resource \<Rightarrow> exc + int"
  quotaSizeAdjust :: "event list \<Rightarrow> resource \<Rightarrow> int \<Rightarrow> exc + unit"
  fileop_delete :: "event list \<Rightarrow> uri \<Rightarrow> resource \<Rightarrow> string \<Rightarrow> exc + response"
  bumpSyncToken :: "event list \<Rightarrow> resource \<Rightarrow> exc + nat"
  index_deleteResource :: "event list \<Rightarrow> resource \<Rightarrow> string \<Rightarrow> nat \<Rightarrow> exc + unit"
  iCalendarForUser :: "event list \<Rightarrow> resource \<Rightarrow> exc + calendar"
  testImplicitSchedulingDELETE :: "event list \<Rightarrow> resource \<Rightarrow> calendar \<Rightarrow> exc + bool"
  isVirtualShare :: "event list \<Rightarrow> resource \<Rightarrow> exc + bool"
  lock_acquire :: "event list \<Rightarrow> lock \<Rightarrow> exc + unit"
  lock_clean :: "event list \<Rightarrow> lock \<Rightarrow> exc + unit"
  doImplicitScheduling :: "event list \<Rightarrow> exc + unit"
  isDefaultCalendar :: "event list \<Rightarrow> resource \<Rightarrow> exc + bool"
  removeVirtualShare :: "event list \<Rightarrow> resource \<Rightarrow> exc + unit"
  listChildren :: "event list \<Rightarrow> resource \<Rightarrow> exc + string list"
  locateChildResource :: "event list \<Rightarrow> resource \<Rightarrow> string \<Rightarrow> exc + resource"
  isShared :: "event list \<Rightarrow> resource \<Rightarrow> exc + bool"
  downgradeFromShare :: "event list \<Rightarrow> resource \<Rightarrow> exc + unit"
  deletedCalendar :: "event list \<Rightarrow> resource \<Rightarrow> exc + unit"
  locateParent :: "event list \<Rightarrow> resource \<Rightarrow> uri \<Rightarrow> exc + resource"
  findCalendarCollections :: "event list \<Rightarrow> resource \<Rightarrow> uri \<Rightarrow> string \<Rightarrow> exc + (resource \<times> uri) list"
  findAddressBookCollections :: "event list \<Rightarrow> resource \<Rightarrow> uri \<Rightarrow> string \<Rightarrow> exc + (resource \<times> uri) list"
  joinURL :: "uri \<Rightarrow> string \<Rightarrow> uri"
  ScheduleTagCompatibility :: bool

subsection \<open>Sequencing\<close>

text \<open>
  An action takes the history and gives its outcome and the calls it made.
  \<open>andThen\<close> is the sequencing of statements: an exception stops the rest, and
  the calls already made stay made.
\<close>

type_synonym 'a action = "event list \<Rightarrow> (exc + 'a) \<times> event list"

definition returnValue :: "'a \<Rightarrow> 'a action" where
  "returnValue x h = (Inr x, [])"

definition raise :: "exc \<Rightarrow> 'a action" where
  "raise e h = (Inl e, [])"

definition andThen :: "'a action \<Rightarrow> ('a \<Rightarrow> 'b action) \<Rightarrow> 'b action" where
  "andThen m f h =
     (case m h of
        (Inl e, evs) \<Rightarrow> (Inl e, evs)
      | (Inr x, evs) \<Rightarrow> (case f x (h @ evs) of (r, evs') \<Rightarrow> (r, evs @ evs')))"

text \<open>A call of a collaborator: ask the environment, log the call with its answer.\<close>

definition call :: "(exc + 'a \<Rightarrow> event) \<Rightarrow> (event list \<Rightarrow> exc + 'a) \<Rightarrow> 'a action" where
  "call mk oracle h =
     (case oracle h of
        Inl e \<Rightarrow> (Inl e, [mk (Inl e)])
      | Inr x \<Rightarrow> (Inr x, [mk (Inr x)]))"

text \<open>\<open>try: body / except MemcacheLockTimeoutError: handler\<close>.\<close>

definition try_except_MemcacheLockTimeoutError :: "'a action \<Rightarrow> 'a action \<Rightarrow> 'a action" where
  "try_except_MemcacheLockTimeoutError body handler h =
     (case body h of
        (Inl MemcacheLockTimeoutError, evs) \<Rightarrow>
          (case handler (h @ evs) of (r, evs') \<Rightarrow> (r, evs @ evs'))
      | (r, evs) \<Rightarrow> (r, evs))"

text \<open>The bare \<open>try: body / except: handler\<close>, which catches everything.\<close>

definition try_except :: "'a action \<Rightarrow> 'a action \<Rightarrow> 'a action" where
  "try_except body handler h =
     (case body h of
        (Inl e, evs) \<Rightarrow> (case handler (h @ evs) of (r, evs') \<Rightarrow> (r, evs @ evs'))
      | (Inr x, evs) \<Rightarrow> (Inr x, evs))"

text \<open>
  \<open>try: body / finally: cleanup\<close>: the cleanup runs on every exit of the body;
  an exception of the cleanup replaces the outcome of the body.
\<close>

definition try_finally :: "'a action \<Rightarrow> unit action \<Rightarrow> 'a action" where
  "try_finally body cleanup h =
     (case body h of
        (r, evs) \<Rightarrow>
          (case cleanup (h @ evs) of
             (Inl e, evs') \<Rightarrow> (Inl e, evs @ evs')
           | (Inr u, evs') \<Rightarrow> (r, evs @ evs')))"

subsection \<open>validIfScheduleMatch\<close>

text \<open>
  The local \<open>scheduletag\<close> is assigned only inside the inner \<open>if\<close>; the log line
  of the mismatch branch formats it before the \<open>raise\<close>, so reading it unassigned
  raises \<open>UnboundLocalError\<close> there. \<open>if header:\<close> is false for a missing header
  and for an empty one.
\<close>

definition validIfScheduleMatch :: "env \<Rightarrow> DeleteResource \<Rightarrow> exc + unit" where
  "validIfScheduleMatch env self =
     (if \<not> internal_request self then
        (let header = headers (self_request self) ''If-Schedule-Tag-Match'' in
         if header \<noteq> None \<and> header \<noteq> Some [] then
           (let (matched, scheduletag) =
                  (if res_exists (self_resource self) \<and> deadScheduleTag (self_resource self) \<noteq> None
                   then (deadScheduleTag (self_resource self) = header, deadScheduleTag (self_resource self))
                   else (False, None))
            in if \<not> matched then
                 (case scheduletag of
                    None \<Rightarrow> Inl UnboundLocalError
                  | Some t \<Rightarrow> Inl (HTTPError PRECONDITION_FAILED))
               else Inr ())
         else if ScheduleTagCompatibility env then Inr ()
         else Inr ())
      else Inr ())"

definition lift :: "exc + 'a \<Rightarrow> 'a action" where
  "lift r h = (r, [])"

subsection \<open>deleteResource\<close>

definition deleteResource :: "env \<Rightarrow> DeleteResource \<Rightarrow> resource \<Rightarrow> uri \<Rightarrow> resource \<Rightarrow> response action" where
  "deleteResource env self delresource deluri parent =
     andThen (call (Quota delresource) (\<lambda>h. quota env h delresource)) (\<lambda>myquota.
     andThen (if myquota \<noteq> None
              then call (QuotaSize delresource) (\<lambda>h. quotaSize env h delresource)
              else returnValue 0) (\<lambda>old_size.
     andThen (call (Delete deluri delresource (self_depth self))
                (\<lambda>h. fileop_delete env h deluri delresource (self_depth self))) (\<lambda>response.
     andThen (if myquota \<noteq> None
              then call (QuotaSizeAdjust delresource (- old_size))
                     (\<lambda>h. quotaSizeAdjust env h delresource (- old_size))
              else returnValue ()) (\<lambda>_.
     andThen (if response = Status NO_CONTENT then
                (if isPseudoCalendarCollection parent then
                   andThen (call (BumpSyncToken parent)
                              (\<lambda>h. bumpSyncToken env h parent)) (\<lambda>newrevision.
                   call (IndexDeleteResource parent (fp_basename delresource) newrevision)
                     (\<lambda>h. index_deleteResource env h parent (fp_basename delresource) newrevision))
                 else returnValue ())
              else returnValue ()) (\<lambda>_.
     returnValue response)))))"

subsection \<open>deleteCalendarResource\<close>

text \<open>
  The function is long; the model names two of its blocks. The first is the
  block under \<open>if not self.internal_request and self.allowImplicitSchedule\<close>
  that gets the data for implicit scheduling; it leaves the two locals
  \<open>scheduler\<close> and \<open>lock\<close>, both \<open>None\<close> before it. The later tests \<open>if lock\<close> and
  \<open>if scheduler\<close> ask whether the local still is \<open>None\<close>: an \<open>ImplicitScheduler\<close> or
  a \<open>MemcacheLock\<close> object counts as true.
\<close>

definition deleteCalendarResource_setup ::
  "env \<Rightarrow> DeleteResource \<Rightarrow> resource \<Rightarrow> resource \<Rightarrow> (scheduler option \<times> lock option) action" where
  "deleteCalendarResource_setup env self delresource parent =
     (if \<not> internal_request self \<and> allowImplicitSchedule self then
        andThen (call (ICalendarForUser delresource)
                   (\<lambda>h. iCalendarForUser env h delresource)) (\<lambda>calendar.
        andThen (call (TestImplicitSchedulingDELETE delresource calendar)
                   (\<lambda>h. testImplicitSchedulingDELETE env h delresource calendar)) (\<lambda>do_implicit_action.
        if do_implicit_action then
          andThen (call (IsVirtualShare parent)
                     (\<lambda>h. isVirtualShare env h parent)) (\<lambda>isvirt.
          if isvirt then raise (HTTPError FORBIDDEN)
          else returnValue
                 (Some ImplicitScheduler,
                  Some (MemcacheLock ''ImplicitUIDLock'' (resourceUID calendar) 60)))
        else returnValue (Some ImplicitScheduler, None)))
      else returnValue (None, None))"

text \<open>The second is the body of the \<open>try\<close> statement.\<close>

definition deleteCalendarResource_body ::
  "env \<Rightarrow> DeleteResource \<Rightarrow> resource \<Rightarrow> uri \<Rightarrow> resource \<Rightarrow>
   nat option \<Rightarrow> int \<Rightarrow> scheduler option \<Rightarrow> lock option \<Rightarrow> response action" where
  "deleteCalendarResource_body env self delresource deluri parent myquota old_size scheduler lock =
     andThen (case lock of
                Some l \<Rightarrow> call (LockAcquire l) (\<lambda>h. lock_acquire env h l)
              | None \<Rightarrow> returnValue ()) (\<lambda>_.
     andThen (call (Delete deluri delresource (self_depth self))
                (\<lambda>h. fileop_delete env h deluri delresource (self_depth self))) (\<lambda>response.
     andThen (if myquota \<noteq> None
              then call (QuotaSizeAdjust delresource (- old_size))
                     (\<lambda>h. quotaSizeAdjust env h delresource (- old_size))
              else returnValue ()) (\<lambda>_.
     andThen (if response = Status NO_CONTENT then
                andThen (call (BumpSyncToken parent)
                           (\<lambda>h. bumpSyncToken env h parent)) (\<lambda>newrevision.
                andThen (call (IndexDeleteResource parent (fp_basename delresource) newrevision)
                           (\<lambda>h. index_deleteResource env h parent (fp_basename delresource) newrevision)) (\<lambda>_.
                if scheduler \<noteq> None \<and> \<not> internal_request self \<and> allowImplicitSchedule self
                then call DoImplicitScheduling (\<lambda>h. doImplicitScheduling env h)
                else returnValue ()))
              else returnValue ()) (\<lambda>_.
     returnValue response))))"

definition deleteCalendarResource :: "env \<Rightarrow> DeleteResource \<Rightarrow> resource \<Rightarrow> uri \<Rightarrow> resource \<Rightarrow> response action" where
  "deleteCalendarResource env self delresource deluri parent =
     andThen (lift (validIfScheduleMatch env self)) (\<lambda>_.
     andThen (call (Quota delresource) (\<lambda>h. quota env h delresource)) (\<lambda>myquota.
     andThen (if myquota \<noteq> None
              then call (QuotaSize delresource) (\<lambda>h. quotaSize env h delresource)
              else returnValue 0) (\<lambda>old_size.
     andThen (deleteCalendarResource_setup env self delresource parent) (\<lambda>(scheduler, lock).
     andThen (try_finally
                (try_except_MemcacheLockTimeoutError
                   (deleteCalendarResource_body env self delresource deluri parent
                      myquota old_size scheduler lock)
                   (raise (HTTPError CONFLICT)))
                (case lock of
                   Some l \<Rightarrow> call (LockClean l) (\<lambda>h. lock_clean env h l)
                 | None \<Rightarrow> returnValue ()))
             (\<lambda>response. returnValue response)))))"

subsection \<open>ResponseQueue\<close>

text \<open>
  Modelled from the spec: the class \<open>ResponseQueue\<close> of \<open>twext.web2.dav.http\<close> is not
  among the sources. The spec describes it as the aggregator of per-child
  outcomes: a default (success) status plus a mapping from child URI to the
  error status of each child that failed; it yields the default when nothing
  was added and a multi-status outcome otherwise, and merging unions the
  per-child maps.
\<close>

record ResponseQueue =
  path_basename :: uri
  method_name :: string
  success_response :: response
  responses :: "(uri \<times> nat) list"

definition new_ResponseQueue :: "uri \<Rightarrow> string \<Rightarrow> response \<Rightarrow> ResponseQueue" where
  "new_ResponseQueue base m success =
     \<lparr>path_basename = base, method_name = m, success_response = success, responses = []\<rparr>"

definition ResponseQueue_add :: "ResponseQueue \<Rightarrow> uri \<Rightarrow> nat \<Rightarrow> ResponseQueue" where
  "ResponseQueue_add errors path what =
     errors\<lparr>responses := AList.update path what (responses errors)\<rparr>"

definition ResponseQueue_response :: "ResponseQueue \<Rightarrow> response" where
  "ResponseQueue_response errors =
     (if responses errors \<noteq> [] then MultiStatusResponse (responses errors)
      else success_response errors)"

text \<open>
  \<open>if isinstance(r, MultiStatusResponse): errors.responses.update(r.children)\<close>.
\<close>

definition merge_errors :: "ResponseQueue \<Rightarrow> response \<Rightarrow> ResponseQueue" where
  "merge_errors errors r =
     (case r of
        MultiStatusResponse children \<Rightarrow>
          errors\<lparr>responses := fold (\<lambda>(k, v). AList.update k v) children (responses errors)\<rparr>
      | Status c \<Rightarrow> errors)"

subsection \<open>deleteCalendar\<close>

text \<open>The \<open>for childname in delresource.listChildren()\<close> loop.\<close>

fun deleteCalendar_children ::
  "env \<Rightarrow> DeleteResource \<Rightarrow> resource \<Rightarrow> uri \<Rightarrow> string list \<Rightarrow> ResponseQueue \<Rightarrow> ResponseQueue action" where
  "deleteCalendar_children env self delresource deluri [] errors = returnValue errors"
| "deleteCalendar_children env self delresource deluri (childname # rest) errors =
     (let childurl = joinURL env deluri childname in
      andThen (call (LocateChildResource delresource childname)
                 (\<lambda>h. locateChildResource env h delresource childname)) (\<lambda>child.
      andThen (try_except
                 (andThen (deleteCalendarResource env self child childurl delresource)
                    (\<lambda>_. returnValue errors))
                 (returnValue (ResponseQueue_add errors childurl BAD_REQUEST))) (\<lambda>errors'.
      deleteCalendar_children env self delresource deluri rest errors')))"

text \<open>
  The statements after the loop, from \<open># Now do normal delete\<close> to the end: the
  sharing downgrade, the change of the CTag, the delete of the collection
  itself, the merge of its outcome into \<open>errors\<close> and the clean-up.
\<close>

definition deleteCalendar_finish ::
  "env \<Rightarrow> DeleteResource \<Rightarrow> resource \<Rightarrow> uri \<Rightarrow> resource \<Rightarrow> ResponseQueue \<Rightarrow> response action" where
  "deleteCalendar_finish env self delresource deluri parent errors =
     andThen (call (IsShared delresource)
                (\<lambda>h. isShared env h delresource)) (\<lambda>wasShared.
     andThen (if wasShared
              then call (DowngradeFromShare delresource)
                     (\<lambda>h. downgradeFromShare env h delresource)
              else returnValue ()) (\<lambda>_.
     andThen (call (BumpSyncToken delresource)
                (\<lambda>h. bumpSyncToken env h delresource)) (\<lambda>_.
     andThen (deleteResource env self delresource deluri parent) (\<lambda>more_responses.
     (let response = ResponseQueue_response (merge_errors errors more_responses) in
      andThen (if response = Status NO_CONTENT
               then call (DeletedCalendar delresource)
                      (\<lambda>h. deletedCalendar env h delresource)
               else returnValue ()) (\<lambda>_.
      returnValue response))))))"

definition deleteCalendar :: "env \<Rightarrow> DeleteResource \<Rightarrow> resource \<Rightarrow> uri \<Rightarrow> resource \<Rightarrow> response action" where
  "deleteCalendar env self delresource deluri parent =
     andThen (call (IsDefaultCalendar delresource)
                (\<lambda>h. isDefaultCalendar env h delresource)) (\<lambda>default.
     if default then raise (HTTPError FORBIDDEN)
     else if self_depth self \<noteq> ''infinity'' then raise (HTTPError BAD_REQUEST)
     else
     andThen (call (IsVirtualShare delresource)
                (\<lambda>h. isVirtualShare env h delresource)) (\<lambda>isVirtual.
     if isVirtual then
       andThen (call (RemoveVirtualShare delresource)
                  (\<lambda>h. removeVirtualShare env h delresource)) (\<lambda>_.
       returnValue (Status NO_CONTENT))
     else
     andThen (call (ListChildren delresource)
                (\<lambda>h. listChildren env h delresource)) (\<lambda>children.
     andThen (deleteCalendar_children env self delresource deluri children
                (new_ResponseQueue deluri ''DELETE'' (Status NO_CONTENT))) (\<lambda>errors.
     deleteCalendar_finish env self delresource deluri parent errors))))"

text \<open>
  The children whose delete raised, in listing order, when the loop above runs
  from history \<open>h\<close>: each child is located and deleted after the calls made for
  the children before it. The loop itself does not compute this list; it is the
  yardstick for what the loop leaves in \<open>errors\<close>.
\<close>

fun failed_children ::
  "env \<Rightarrow> DeleteResource \<Rightarrow> resource \<Rightarrow> uri \<Rightarrow> string list \<Rightarrow> event list \<Rightarrow> uri list" where
  "failed_children env self delresource deluri [] h = []"
| "failed_children env self delresource deluri (childname # rest) h =
     (case locateChildResource env h delresource childname of
        Inl f \<Rightarrow> []
      | Inr child \<Rightarrow>
          (let h' = h @ [LocateChildResource delresource childname (Inr child)];
               r = deleteCalendarResource env self child (joinURL env deluri childname) delresource h'
           in (case fst r of Inl e \<Rightarrow> [joinURL env deluri childname] | Inr x \<Rightarrow> [])
              @ failed_children env self delresource deluri rest (h' @ snd r)))"

subsection \<open>deleteCollection\<close>

text \<open>
  Modelled from the spec: \<open>applyToCalendarCollections\<close> and
  \<open>applyToAddressBookCollections\<close> of \<open>twistedcaldav.method.report_common\<close> are not
  among the sources. The spec describes them as the external tree walk that
  locates every calendar (address book) collection reachable from the target
  and applies the given operation to each in turn; an exception of the
  operation surfaces. The callbacks of this module always answer \<open>True\<close>.
\<close>

fun apply_each ::
  "(ResponseQueue \<Rightarrow> resource \<Rightarrow> uri \<Rightarrow> (ResponseQueue \<times> bool) action) \<Rightarrow>
   (resource \<times> uri) list \<Rightarrow> ResponseQueue \<Rightarrow> ResponseQueue action" where
  "apply_each f [] errors = returnValue errors"
| "apply_each f ((r, u) # rest) errors =
     andThen (f errors r u) (\<lambda>(errors', result).
     if \<not> result then returnValue errors' else apply_each f rest errors')"

definition applyToCalendarCollections ::
  "env \<Rightarrow> resource \<Rightarrow> uri \<Rightarrow> string \<Rightarrow>
   (ResponseQueue \<Rightarrow> resource \<Rightarrow> uri \<Rightarrow> (ResponseQueue \<times> bool) action) \<Rightarrow>
   ResponseQueue \<Rightarrow> ResponseQueue action" where
  "applyToCalendarCollections env res request_uri depth f errors =
     andThen (call (FindCalendarCollections res request_uri depth)
                (\<lambda>h. findCalendarCollections env h res request_uri depth)) (\<lambda>resources.
     apply_each f resources errors)"

definition applyToAddressBookCollections ::
  "env \<Rightarrow> resource \<Rightarrow> uri \<Rightarrow> string \<Rightarrow>
   (ResponseQueue \<Rightarrow> resource \<Rightarrow> uri \<Rightarrow> (ResponseQueue \<times> bool) action) \<Rightarrow>
   ResponseQueue \<Rightarrow> ResponseQueue action" where
  "applyToAddressBookCollections env res request_uri depth f errors =
     andThen (call (FindAddressBookCollections res request_uri depth)
                (\<lambda>h. findAddressBookCollections env h res request_uri depth)) (\<lambda>resources.
     apply_each f resources errors)"

text \<open>
  The nested function \<open>doDeleteCalendar\<close>; it updates the \<open>errors\<close> of the
  enclosing call, which the model passes in and hands back.
\<close>

definition doDeleteCalendar ::
  "env \<Rightarrow> DeleteResource \<Rightarrow> ResponseQueue \<Rightarrow> resource \<Rightarrow> uri \<Rightarrow> (ResponseQueue \<times> bool) action" where
  "doDeleteCalendar env self errors delresource deluri =
     andThen (call (LocateParent delresource deluri)
                (\<lambda>h. locateParent env h delresource deluri)) (\<lambda>delparent.
     andThen (deleteCalendar env self delresource deluri delparent) (\<lambda>response.
     returnValue (merge_errors errors response, True)))"

definition deleteCollection :: "env \<Rightarrow> DeleteResource \<Rightarrow> response action" where
  "deleteCollection env self =
     (if self_depth self \<noteq> ''infinity'' then raise (HTTPError BAD_REQUEST)
      else
      andThen (applyToCalendarCollections env (self_resource self) (self_resource_uri self)
                 (self_depth self) (doDeleteCalendar env self)
                 (new_ResponseQueue (self_resource_uri self) ''DELETE'' (Status NO_CONTENT))) (\<lambda>errors.
      andThen (deleteResource env self (self_resource self) (self_resource_uri self)
                 (self_parent self)) (\<lambda>more_responses.
      returnValue (ResponseQueue_response (merge_errors errors more_responses)))))"

subsection \<open>The address book analogues\<close>

definition deleteAddressBookResource :: "env \<Rightarrow> DeleteResource \<Rightarrow> resource \<Rightarrow> uri \<Rightarrow> resource \<Rightarrow> response action" where
  "deleteAddressBookResource env self delresource deluri parent =
     andThen (call (Quota delresource) (\<lambda>h. quota env h delresource)) (\<lambda>myquota.
     andThen (if myquota \<noteq> None
              then call (QuotaSize delresource) (\<lambda>h. quotaSize env h delresource)
              else returnValue 0) (\<lambda>old_size.
     andThen (try_except_MemcacheLockTimeoutError
                (andThen (call (Delete deluri delresource (self_depth self))
                            (\<lambda>h. fileop_delete env h deluri delresource (self_depth self))) (\<lambda>response.
                 andThen (if myquota \<noteq> None
                          then call (QuotaSizeAdjust delresource (- old_size))
                                 (\<lambda>h. quotaSizeAdjust env h delresource (- old_size))
                          else returnValue ()) (\<lambda>_.
                 andThen (if response = Status NO_CONTENT then
                            andThen (call (BumpSyncToken parent)
                                       (\<lambda>h. bumpSyncToken env h parent)) (\<lambda>newrevision.
                            call (IndexDeleteResource parent (fp_basename delresource) newrevision)
                              (\<lambda>h. index_deleteResource env h parent (fp_basename delresource) newrevision))
                          else returnValue ()) (\<lambda>_.
                 returnValue response))))
                (raise (HTTPError CONFLICT)))
             (\<lambda>response. returnValue response)))"

fun deleteAddressBook_children ::
  "env \<Rightarrow> DeleteResource \<Rightarrow> resource \<Rightarrow> uri \<Rightarrow> string list \<Rightarrow> ResponseQueue \<Rightarrow> ResponseQueue action" where
  "deleteAddressBook_children env self delresource deluri [] errors = returnValue errors"
| "deleteAddressBook_children env self delresource deluri (childname # rest) errors =
     (let childurl = joinURL env deluri childname in
      andThen (call (LocateChildResource delresource childname)
                 (\<lambda>h. locateChildResource env h delresource childname)) (\<lambda>child.
      andThen (try_except
                 (andThen (deleteAddressBookResource env self child childurl delresource)
                    (\<lambda>_. returnValue errors))
                 (returnValue (ResponseQueue_add errors childurl BAD_REQUEST))) (\<lambda>errors'.
      deleteAddressBook_children env self delresource deluri rest errors')))"

definition deleteAddressBook :: "env \<Rightarrow> DeleteResource \<Rightarrow> resource \<Rightarrow> uri \<Rightarrow> resource \<Rightarrow> response action" where
  "deleteAddressBook env self delresource deluri parent =
     (if self_depth self \<noteq> ''infinity'' then raise (HTTPError BAD_REQUEST)
      else
      andThen (call (IsVirtualShare delresource)
                 (\<lambda>h. isVirtualShare env h delresource)) (\<lambda>isVirtual.
      if isVirtual then
        andThen (call (RemoveVirtualShare delresource)
                   (\<lambda>h. removeVirtualShare env h delresource)) (\<lambda>_.
        returnValue (Status NO_CONTENT))
      else
      andThen (call (ListChildren delresource)
                 (\<lambda>h. listChildren env h delresource)) (\<lambda>children.
      andThen (deleteAddressBook_children env self delresource deluri children
                 (new_ResponseQueue deluri ''DELETE'' (Status NO_CONTENT))) (\<lambda>errors.
      andThen (call (IsShared delresource)
                 (\<lambda>h. isShared env h delresource)) (\<lambda>wasShared.
      andThen (if wasShared
               then call (DowngradeFromShare delresource)
                      (\<lambda>h. downgradeFromShare env h delresource)
               else returnValue ()) (\<lambda>_.
      andThen (call (BumpSyncToken delresource)
                 (\<lambda>h. bumpSyncToken env h delresource)) (\<lambda>_.
      andThen (deleteResource env self delresource deluri parent) (\<lambda>more_responses.
      returnValue (ResponseQueue_response (merge_errors errors more_responses))))))))))"

definition doDeleteAddressBook ::
  "env \<Rightarrow> DeleteResource \<Rightarrow> ResponseQueue \<Rightarrow> resource \<Rightarrow> uri \<Rightarrow> (ResponseQueue \<times> bool) action" where
  "doDeleteAddressBook env self errors delresource deluri =
     andThen (call (LocateParent delresource deluri)
                (\<lambda>h. locateParent env h delresource deluri)) (\<lambda>delparent.
     andThen (deleteAddressBook env self delresource deluri delparent) (\<lambda>response.
     returnValue (merge_errors errors response, True)))"

definition deleteCollectionAB :: "env \<Rightarrow> DeleteResource \<Rightarrow> response action" where
  "deleteCollectionAB env self =
     (if self_depth self \<noteq> ''infinity'' then raise (HTTPError BAD_REQUEST)
      else
      andThen (applyToAddressBookCollections env (self_resource self) (self_resource_uri self)
                 (self_depth self) (doDeleteAddressBook env self)
                 (new_ResponseQueue (self_resource_uri self) ''DELETE'' (Status NO_CONTENT))) (\<lambda>errors.
      andThen (deleteResource env self (self_resource self) (self_resource_uri self)
                 (self_parent self)) (\<lambda>more_responses.
      returnValue (ResponseQueue_response (merge_errors errors more_responses)))))"

subsection \<open>run\<close>

definition run :: "env \<Rightarrow> DeleteResource \<Rightarrow> response action" where
  "run env self =
     (if isCalendarCollection (self_parent self) then
        deleteCalendarResource env self (self_resource self) (self_resource_uri self) (self_parent self)
      else if isCalendarCollection (self_resource self) then
        deleteCalendar env self (self_resource self) (self_resource_uri self) (self_parent self)
      else if isAddressBookCollection (self_parent self) then
        deleteAddressBookResource env self (self_resource self) (self_resource_uri self) (self_parent self)
      else if isAddressBookCollection (self_resource self) then
        deleteAddressBook env self (self_resource self) (self_resource_uri self) (self_parent self)
      else if isCollection (self_resource self) then
        deleteCollection env self
      else
        deleteResource env self (self_resource self) (self_resource_uri self) (self_parent self))"

subsection \<open>Example inputs\<close>

text \<open>
  A calendar object \<open>event1.ics\<close> in the calendar collection \<open>home\<close> of a user,
  two requests (one for the object, one for the collection), and an environment
  in which every collaborator succeeds: quota is supported, the object takes
  120 bytes, the store answers \<open>NO_CONTENT\<close>, nothing is shared, the collection
  is not the default calendar and lists no children, and the scheduler sees no
  need for an implicit action.
\<close>

definition ex_event :: resource where
  "ex_event =
     \<lparr>fp_path = ''/data/calendars/user/home/event1.ics'', fp_basename = ''event1.ics'',
      res_exists = True, deadScheduleTag = Some ''tag-1'',
      isCalendarCollection = False, isPseudoCalendarCollection = False,
      isAddressBookCollection = False, isCollection = False\<rparr>"

definition ex_home :: resource where
  "ex_home =
     \<lparr>fp_path = ''/data/calendars/user/home'', fp_basename = ''home'',
      res_exists = True, deadScheduleTag = None,
      isCalendarCollection = True, isPseudoCalendarCollection = True,
      isAddressBookCollection = False, isCollection = True\<rparr>"

definition ex_user :: resource where
  "ex_user =
     \<lparr>fp_path = ''/data/calendars/user'', fp_basename = ''user'',
      res_exists = True, deadScheduleTag = None,
      isCalendarCollection = False, isPseudoCalendarCollection = False,
      isAddressBookCollection = False, isCollection = True\<rparr>"

definition ex_delete_event :: DeleteResource where
  "ex_delete_event =
     \<lparr>self_request = \<lparr>headers = Map.empty\<rparr>,
      self_resource = ex_event, self_resource_uri = ''/calendars/user/home/event1.ics'',
      self_parent = ex_home, self_depth = ''0'',
      internal_request = False, allowImplicitSchedule = True\<rparr>"

definition ex_delete_home :: DeleteResource where
  "ex_delete_home =
     \<lparr>self_request = \<lparr>headers = Map.empty\<rparr>,
      self_resource = ex_home, self_resource_uri = ''/calendars/user/home'',
      self_parent = ex_user, self_depth = ''infinity'',
      internal_request = False, allowImplicitSchedule = True\<rparr>"

definition ex_child :: "string \<Rightarrow> resource" where
  "ex_child childname =
     \<lparr>fp_path = ''/data/calendars/user/home/'' @ childname, fp_basename = childname,
      res_exists = True, deadScheduleTag = None,
      isCalendarCollection = False, isPseudoCalendarCollection = False,
      isAddressBookCollection = False, isCollection = False\<rparr>"

text \<open>
  An address book object \<open>card1.vcf\<close> in the address book collection \<open>book\<close> of the
  same user, and the request that deletes it.
\<close>

definition ex_card :: resource where
  "ex_card =
     \<lparr>fp_path = ''/data/addressbooks/user/book/card1.vcf'', fp_basename = ''card1.vcf'',
      res_exists = True, deadScheduleTag = None,
      isCalendarCollection = False, isPseudoCalendarCollection = False,
      isAddressBookCollection = False, isCollection = False\<rparr>"

definition ex_book :: resource where
  "ex_book =
     \<lparr>fp_path = ''/data/addressbooks/user/book'', fp_basename = ''book'',
      res_exists = True, deadScheduleTag = None,
      isCalendarCollection = False, isPseudoCalendarCollection = False,
      isAddressBookCollection = True, isCollection = True\<rparr>"

definition ex_delete_card :: DeleteResource where
  "ex_delete_card =
     \<lparr>self_request = \<lparr>headers = Map.empty\<rparr>,
      self_resource = ex_card, self_resource_uri = ''/addressbooks/user/book/card1.vcf'',
      self_parent = ex_book, self_depth = ''0'',
      internal_request = False, allowImplicitSchedule = False\<rparr>"

definition ex_env :: env where
  "ex_env =
     \<lparr>quota = (\<lambda>h r. Inr (Some 1000)),
      quotaSize = (\<lambda>h r. Inr 120),
      quotaSizeAdjust = (\<lambda>h r d. Inr ()),
      fileop_delete = (\<lambda>h u r d. Inr (Status NO_CONTENT)),
      bumpSyncToken = (\<lambda>h r. Inr 8),
      index_deleteResource = (\<lambda>h r n v. Inr ()),
      iCalendarForUser = (\<lambda>h r. Inr \<lparr>resourceUID = ''uid-1''\<rparr>),
      testImplicitSchedulingDELETE = (\<lambda>h r c. Inr False),
      isVirtualShare = (\<lambda>h r. Inr False),
      lock_acquire = (\<lambda>h l. Inr ()),
      lock_clean = (\<lambda>h l. Inr ()),
      doImplicitScheduling = (\<lambda>h. Inr ()),
      isDefaultCalendar = (\<lambda>h r. Inr False),
      removeVirtualShare = (\<lambda>h r. Inr ()),
      listChildren = (\<lambda>h r. Inr []),
      locateChildResource = (\<lambda>h r n. Inr (ex_child n)),
      isShared = (\<lambda>h r. Inr False),
      downgradeFromShare = (\<lambda>h r. Inr ()),
      deletedCalendar = (\<lambda>h r. Inr ()),
      locateParent = (\<lambda>h r u. Inr ex_user),
      findCalendarCollections = (\<lambda>h r u d. Inr []),
      findAddressBookCollections = (\<lambda>h r u d. Inr []),
      joinURL = (\<lambda>base n. base @ ''/'' @ n),
      ScheduleTagCompatibility = False\<rparr>"

section \<open>Properties\<close>

subsection \<open>Running the sequencing combinators\<close>

lemma andThen_returnValue [simp]: "andThen (returnValue x) f h = f x h"
  by (simp add: andThen_def returnValue_def split: prod.splits)

lemma andThen_raise [simp]: "andThen (raise e) f h = (Inl e, [])"
  by (simp add: andThen_def raise_def)

lemma andThen_lift [simp]:
  "andThen (lift r) f h = (case r of Inl e \<Rightarrow> (Inl e, []) | Inr x \<Rightarrow> f x h)"
  by (simp add: andThen_def lift_def split: sum.splits prod.splits)

lemma andThen_call [simp]:
  "andThen (call mk oracle) f h =
     (case oracle h of
        Inl e \<Rightarrow> (Inl e, [mk (Inl e)])
      | Inr x \<Rightarrow> apsnd ((#) (mk (Inr x))) (f x (h @ [mk (Inr x)])))"
  by (simp add: andThen_def call_def split: sum.splits prod.splits)

lemma andThen_assoc [simp]:
  "andThen (andThen m f) g h = andThen m (\<lambda>x. andThen (f x) g) h"
  by (simp add: andThen_def split: sum.splits prod.splits)

lemma andThen_returnValue_right [simp]: "andThen m (\<lambda>x. returnValue x) h = m h"
  by (simp add: andThen_def returnValue_def split: sum.splits prod.splits)

lemma returnValue_apply [simp]: "returnValue x h = (Inr x, [])"
  by (simp add: returnValue_def)

lemma raise_apply [simp]: "raise e h = (Inl e, [])"
  by (simp add: raise_def)

lemma call_apply:
  "call mk oracle h =
     (case oracle h of
        Inl e \<Rightarrow> (Inl e, [mk (Inl e)])
      | Inr x \<Rightarrow> (Inr x, [mk (Inr x)]))"
  by (simp add: call_def)

lemma try_except_MemcacheLockTimeoutError_apply:
  "try_except_MemcacheLockTimeoutError body handler h =
     (if fst (body h) = Inl MemcacheLockTimeoutError
      then (fst (handler (h @ snd (body h))), snd (body h) @ snd (handler (h @ snd (body h))))
      else body h)"
  by (simp add: try_except_MemcacheLockTimeoutError_def split: prod.splits sum.splits exc.splits)

lemma try_finally_apply:
  "try_finally body cleanup h =
     ((case fst (cleanup (h @ snd (body h))) of Inl e \<Rightarrow> Inl e | Inr u \<Rightarrow> fst (body h)),
      snd (body h) @ snd (cleanup (h @ snd (body h))))"
  by (simp add: try_finally_def split: prod.splits sum.splits)

text \<open>
  The same combinators with the sub-run named once, for running the model on a
  concrete input.
\<close>

lemma andThen_eval:
  "andThen m f h =
     (let r = m h in
      case fst r of
        Inl e \<Rightarrow> (Inl e, snd r)
      | Inr x \<Rightarrow> apsnd ((@) (snd r)) (f x (h @ snd r)))"
  by (simp add: andThen_def Let_def split: sum.splits prod.splits)

lemma try_except_eval:
  "try_except body handler h =
     (let r = body h in
      case fst r of
        Inl e \<Rightarrow> apsnd ((@) (snd r)) (handler (h @ snd r))
      | Inr x \<Rightarrow> r)"
  by (simp add: try_except_def Let_def split: sum.splits prod.splits)

lemma try_except_MemcacheLockTimeoutError_eval:
  "try_except_MemcacheLockTimeoutError body handler h =
     (let r = body h in
      if fst r = Inl MemcacheLockTimeoutError
      then apsnd ((@) (snd r)) (handler (h @ snd r))
      else r)"
  by (simp add: try_except_MemcacheLockTimeoutError_def Let_def split: sum.splits prod.splits exc.splits)

lemma try_finally_eval:
  "try_finally body cleanup h =
     (let r = body h; c = cleanup (h @ snd r) in
      (case fst c of Inl e \<Rightarrow> Inl e | Inr u \<Rightarrow> fst r, snd r @ snd c))"
  by (simp add: try_finally_def Let_def split: sum.splits prod.splits)

lemmas eval_simps =
  deleteCalendar_def deleteCalendar_finish_def deleteCalendarResource_def
  deleteCalendarResource_setup_def deleteCalendarResource_body_def
  deleteResource_def validIfScheduleMatch_def
  andThen_eval try_except_eval try_except_MemcacheLockTimeoutError_eval try_finally_eval
  call_apply lift_def Let_def
  ResponseQueue_response_def merge_errors_def new_ResponseQueue_def ResponseQueue_add_def

subsection \<open>The If-Schedule-Tag-Match precondition\<close>

text \<open>
  Claim C5. For a client request with an If-Schedule-Tag-Match header, a
  resource that does not exist, or that has no stored schedule tag, should make
  the check fail with \<open>PRECONDITION_FAILED\<close>. The code reaches the mismatch branch
  with \<open>scheduletag\<close> never assigned and raises \<open>UnboundLocalError\<close> while formatting
  the log line, before the \<open>raise HTTPError\<close>. The two inputs below are the
  request for \<open>event1.ics\<close> with the header \<open>tag-1\<close>, first on a resource that does
  not exist, then on one that exists without a schedule tag.
\<close>

theorem validIfScheduleMatch_unbound_scheduletag:
  "validIfScheduleMatch ex_env
     (ex_delete_event\<lparr>self_request := \<lparr>headers = [''If-Schedule-Tag-Match'' \<mapsto> ''tag-1'']\<rparr>,
                       self_resource := ex_event\<lparr>res_exists := False\<rparr>\<rparr>)
     = Inl UnboundLocalError
   \<and> validIfScheduleMatch ex_env
     (ex_delete_event\<lparr>self_request := \<lparr>headers = [''If-Schedule-Tag-Match'' \<mapsto> ''tag-1'']\<rparr>,
                       self_resource := ex_event\<lparr>deadScheduleTag := None\<rparr>\<rparr>)
     = Inl UnboundLocalError"
  by (simp add: validIfScheduleMatch_def ex_delete_event_def ex_event_def)

text \<open>
  The rest of the check behaves as documented: an internal request and a
  matching tag pass, a stored tag that differs fails with \<open>PRECONDITION_FAILED\<close>.
\<close>

lemma validIfScheduleMatch_internal:
  "internal_request self \<Longrightarrow> validIfScheduleMatch env self = Inr ()"
  by (simp add: validIfScheduleMatch_def)

lemma validIfScheduleMatch_matching:
  "res_exists (self_resource self) \<Longrightarrow>
   headers (self_request self) ''If-Schedule-Tag-Match'' = Some t \<Longrightarrow>
   deadScheduleTag (self_resource self) = Some t \<Longrightarrow>
   validIfScheduleMatch env self = Inr ()"
  by (simp add: validIfScheduleMatch_def)

lemma validIfScheduleMatch_differing:
  "\<not> internal_request self \<Longrightarrow> res_exists (self_resource self) \<Longrightarrow>
   headers (self_request self) ''If-Schedule-Tag-Match'' = Some t \<Longrightarrow> t \<noteq> [] \<Longrightarrow>
   deadScheduleTag (self_resource self) = Some t' \<Longrightarrow> t' \<noteq> t \<Longrightarrow>
   validIfScheduleMatch env self = Inl (HTTPError PRECONDITION_FAILED)"
  by (simp add: validIfScheduleMatch_def)

subsection \<open>The guards of the collection deletes\<close>

text \<open>
  Claim C7. \<open>deleteCalendar\<close> on the owner's default calendar fails with
  \<open>FORBIDDEN\<close>, whatever the depth and the history of the store, and the only
  collaborator call it has made is the \<open>isDefaultCalendar\<close> query: nothing of the
  store was changed.
\<close>

theorem deleteCalendar_default_forbidden:
  assumes "isDefaultCalendar env h delresource = Inr True"
  shows "deleteCalendar env self delresource deluri parent h =
           (Inl (HTTPError FORBIDDEN), [IsDefaultCalendar delresource (Inr True)])"
  using assms by (simp add: deleteCalendar_def)

theorem deleteCalendar_default_forbidden_witness:
  "isDefaultCalendar (ex_env\<lparr>isDefaultCalendar := (\<lambda>h r. Inr True)\<rparr>) [] ex_home = Inr True
   \<and> deleteCalendar (ex_env\<lparr>isDefaultCalendar := (\<lambda>h r. Inr True)\<rparr>) ex_delete_home
       ex_home ''/calendars/user/home'' ex_user [] =
       (Inl (HTTPError FORBIDDEN), [IsDefaultCalendar ex_home (Inr True)])"
proof -
  have d: "isDefaultCalendar (ex_env\<lparr>isDefaultCalendar := (\<lambda>h r. Inr True)\<rparr>) [] ex_home = Inr True"
    by simp
  show ?thesis
    using d deleteCalendar_default_forbidden [OF d, of ex_delete_home "''/calendars/user/home''" ex_user]
    by simp
qed

text \<open>
  Claim C6, as the code has it. When the depth is not \<open>infinity\<close>,
  \<open>deleteCollection\<close>, \<open>deleteAddressBook\<close> and \<open>deleteCollectionAB\<close> fail with
  \<open>BAD_REQUEST\<close> without a single collaborator call. \<open>deleteCalendar\<close> asks
  \<open>isDefaultCalendar\<close> first and makes no other call; it fails with \<open>BAD_REQUEST\<close>
  when that query answers that the calendar is not the default one.
\<close>

theorem illegal_depth_bad_request:
  assumes "self_depth self \<noteq> ''infinity''"
  shows "deleteCollection env self h = (Inl (HTTPError BAD_REQUEST), [])
       \<and> deleteAddressBook env self delresource deluri parent h = (Inl (HTTPError BAD_REQUEST), [])
       \<and> deleteCollectionAB env self h = (Inl (HTTPError BAD_REQUEST), [])
       \<and> snd (deleteCalendar env self delresource deluri parent h) =
           [IsDefaultCalendar delresource (isDefaultCalendar env h delresource)]
       \<and> (isDefaultCalendar env h delresource = Inr False \<longrightarrow>
            fst (deleteCalendar env self delresource deluri parent h) = Inl (HTTPError BAD_REQUEST))"
  using assms
  by (simp add: deleteCollection_def deleteAddressBook_def deleteCollectionAB_def deleteCalendar_def
      split: sum.splits)

theorem illegal_depth_bad_request_witness:
  "self_depth (ex_delete_home\<lparr>self_depth := ''1''\<rparr>) \<noteq> ''infinity''
   \<and> isDefaultCalendar ex_env [] ex_home = Inr False
   \<and> deleteCollection ex_env (ex_delete_home\<lparr>self_depth := ''1''\<rparr>) [] =
       (Inl (HTTPError BAD_REQUEST), [])
   \<and> deleteAddressBook ex_env (ex_delete_home\<lparr>self_depth := ''1''\<rparr>) ex_home
       ''/calendars/user/home'' ex_user [] = (Inl (HTTPError BAD_REQUEST), [])
   \<and> deleteCollectionAB ex_env (ex_delete_home\<lparr>self_depth := ''1''\<rparr>) [] =
       (Inl (HTTPError BAD_REQUEST), [])
   \<and> deleteCalendar ex_env (ex_delete_home\<lparr>self_depth := ''1''\<rparr>) ex_home
       ''/calendars/user/home'' ex_user [] =
       (Inl (HTTPError BAD_REQUEST), [IsDefaultCalendar ex_home (Inr False)])"
proof -
  have d: "self_depth (ex_delete_home\<lparr>self_depth := ''1''\<rparr>) \<noteq> ''infinity''"
    by simp
  have q: "isDefaultCalendar ex_env [] ex_home = Inr False"
    by (simp add: ex_env_def)
  show ?thesis
    using d q illegal_depth_bad_request [OF d, of ex_env "[]" ex_home "''/calendars/user/home''" ex_user]
    by (simp add: prod_eq_iff)
qed

text \<open>
  The claim as the spec words it fails for \<open>deleteCalendar\<close>: on the default
  calendar with depth \<open>0\<close> the outcome is \<open>FORBIDDEN\<close>, not \<open>BAD_REQUEST\<close>.
\<close>

theorem illegal_depth_default_calendar_counterexample:
  "self_depth (ex_delete_home\<lparr>self_depth := ''0''\<rparr>) \<noteq> ''infinity''
   \<and> fst (deleteCalendar (ex_env\<lparr>isDefaultCalendar := (\<lambda>h r. Inr True)\<rparr>)
            (ex_delete_home\<lparr>self_depth := ''0''\<rparr>) ex_home ''/calendars/user/home'' ex_user [])
       = Inl (HTTPError FORBIDDEN)
   \<and> fst (deleteCalendar (ex_env\<lparr>isDefaultCalendar := (\<lambda>h r. Inr True)\<rparr>)
            (ex_delete_home\<lparr>self_depth := ''0''\<rparr>) ex_home ''/calendars/user/home'' ex_user [])
       \<noteq> Inl (HTTPError BAD_REQUEST)"
  by (simp add: deleteCalendar_def)

text \<open>
  Claim C8. When the target is a virtual share and the earlier checks pass,
  \<open>deleteCalendar\<close> and \<open>deleteAddressBook\<close> make one call that changes anything,
  \<open>removeVirtualShare\<close>, after the queries that led there: no quota, sync token,
  index or child is touched. They return \<open>NO_CONTENT\<close> when that call returns.
\<close>

theorem virtual_share_only_detached:
  "(self_depth self = ''infinity''
      \<and> isDefaultCalendar env h delresource = Inr False
      \<and> isVirtualShare env (h @ [IsDefaultCalendar delresource (Inr False)]) delresource = Inr True
    \<longrightarrow> snd (deleteCalendar env self delresource deluri parent h) =
          [IsDefaultCalendar delresource (Inr False), IsVirtualShare delresource (Inr True),
           RemoveVirtualShare delresource
             (removeVirtualShare env
                (h @ [IsDefaultCalendar delresource (Inr False), IsVirtualShare delresource (Inr True)])
                delresource)]
        \<and> (removeVirtualShare env
              (h @ [IsDefaultCalendar delresource (Inr False), IsVirtualShare delresource (Inr True)])
              delresource = Inr ()
           \<longrightarrow> fst (deleteCalendar env self delresource deluri parent h) = Inr (Status NO_CONTENT)))
   \<and> (self_depth self = ''infinity''
      \<and> isVirtualShare env h delresource = Inr True
    \<longrightarrow> snd (deleteAddressBook env self delresource deluri parent h) =
          [IsVirtualShare delresource (Inr True),
           RemoveVirtualShare delresource
             (removeVirtualShare env (h @ [IsVirtualShare delresource (Inr True)]) delresource)]
        \<and> (removeVirtualShare env (h @ [IsVirtualShare delresource (Inr True)]) delresource = Inr ()
           \<longrightarrow> fst (deleteAddressBook env self delresource deluri parent h) = Inr (Status NO_CONTENT)))"
  by (simp add: deleteCalendar_def deleteAddressBook_def split: sum.splits)

theorem virtual_share_only_detached_witness:
  "self_depth ex_delete_home = ''infinity''
   \<and> isDefaultCalendar (ex_env\<lparr>isVirtualShare := (\<lambda>h r. Inr True)\<rparr>) [] ex_home = Inr False
   \<and> isVirtualShare (ex_env\<lparr>isVirtualShare := (\<lambda>h r. Inr True)\<rparr>)
       [IsDefaultCalendar ex_home (Inr False)] ex_home = Inr True
   \<and> isVirtualShare (ex_env\<lparr>isVirtualShare := (\<lambda>h r. Inr True)\<rparr>) [] ex_home = Inr True
   \<and> deleteCalendar (ex_env\<lparr>isVirtualShare := (\<lambda>h r. Inr True)\<rparr>) ex_delete_home ex_home
       ''/calendars/user/home'' ex_user [] =
       (Inr (Status NO_CONTENT),
        [IsDefaultCalendar ex_home (Inr False), IsVirtualShare ex_home (Inr True),
         RemoveVirtualShare ex_home (Inr ())])
   \<and> deleteAddressBook (ex_env\<lparr>isVirtualShare := (\<lambda>h r. Inr True)\<rparr>) ex_delete_home ex_home
       ''/calendars/user/home'' ex_user [] =
       (Inr (Status NO_CONTENT),
        [IsVirtualShare ex_home (Inr True), RemoveVirtualShare ex_home (Inr ())])"
  using virtual_share_only_detached
    [of ex_delete_home "ex_env\<lparr>isVirtualShare := (\<lambda>h r. Inr True)\<rparr>" "[]" ex_home
        "''/calendars/user/home''" ex_user]
  by (simp add: ex_env_def ex_delete_home_def prod_eq_iff)

subsection \<open>Address book objects and the lock\<close>

lemma deleteAddressBookResource_run:
  assumes "deleteAddressBookResource env self delresource deluri parent h = (res, evs)"
  shows deleteAddressBookResource_no_lock:
      "LockAcquire l a \<notin> set evs \<and> LockClean l c \<notin> set evs"
    and deleteAddressBookResource_conflict:
      "res = Inl (HTTPError CONFLICT) \<longleftrightarrow>
         (\<exists>e. (e = MemcacheLockTimeoutError \<or> e = HTTPError CONFLICT)
            \<and> (Delete deluri delresource (self_depth self) (Inl e) \<in> set evs
               \<or> (\<exists>d. QuotaSizeAdjust delresource d (Inl e) \<in> set evs)
               \<or> BumpSyncToken parent (Inl e) \<in> set evs
               \<or> (\<exists>n. IndexDeleteResource parent (fp_basename delresource) n (Inl e) \<in> set evs)))
         \<or> Quota delresource (Inl (HTTPError CONFLICT)) \<in> set evs
         \<or> QuotaSize delresource (Inl (HTTPError CONFLICT)) \<in> set evs"
  using assms[symmetric]
  by (auto simp add: deleteAddressBookResource_def try_except_MemcacheLockTimeoutError_def call_apply
      split: sum.splits option.splits if_splits exc.splits prod.splits)

text \<open>
  Claim C10, as the code has it. \<open>deleteAddressBookResource\<close> never calls
  \<open>lock.acquire\<close> or \<open>lock.clean\<close>: it takes no lock. Its \<open>except\<close> clause is live all
  the same: the outcome is \<open>HTTPError(CONFLICT)\<close> exactly when one of the four calls
  of the guarded block (the delete, the quota adjustment, the bump of the sync
  token, the removal from the index) raised \<open>MemcacheLockTimeoutError\<close>, or when a
  call of the function raised \<open>HTTPError(CONFLICT)\<close> itself.
\<close>

theorem deleteAddressBookResource_conflict_iff_collaborator_raises:
  "LockAcquire l a \<notin> set (snd (deleteAddressBookResource env self delresource deluri parent h))
   \<and> LockClean l c \<notin> set (snd (deleteAddressBookResource env self delresource deluri parent h))
   \<and> (fst (deleteAddressBookResource env self delresource deluri parent h) = Inl (HTTPError CONFLICT)
      \<longleftrightarrow>
        (\<exists>e. (e = MemcacheLockTimeoutError \<or> e = HTTPError CONFLICT)
           \<and> (Delete deluri delresource (self_depth self) (Inl e)
                  \<in> set (snd (deleteAddressBookResource env self delresource deluri parent h))
              \<or> (\<exists>d. QuotaSizeAdjust delresource d (Inl e)
                  \<in> set (snd (deleteAddressBookResource env self delresource deluri parent h)))
              \<or> BumpSyncToken parent (Inl e)
                  \<in> set (snd (deleteAddressBookResource env self delresource deluri parent h))
              \<or> (\<exists>n. IndexDeleteResource parent (fp_basename delresource) n (Inl e)
                  \<in> set (snd (deleteAddressBookResource env self delresource deluri parent h)))))
        \<or> Quota delresource (Inl (HTTPError CONFLICT))
             \<in> set (snd (deleteAddressBookResource env self delresource deluri parent h))
        \<or> QuotaSize delresource (Inl (HTTPError CONFLICT))
             \<in> set (snd (deleteAddressBookResource env self delresource deluri parent h)))"
proof -
  obtain res evs where run: "deleteAddressBookResource env self delresource deluri parent h = (res, evs)"
    by (cases "deleteAddressBookResource env self delresource deluri parent h")
  from deleteAddressBookResource_no_lock[OF run, of l a c]
       deleteAddressBookResource_conflict[OF run] run
  show ?thesis
    by simp
qed

theorem deleteAddressBookResource_conflict_iff_collaborator_raises_witness:
  "deleteAddressBookResource (ex_env\<lparr>bumpSyncToken := (\<lambda>h r. Inl MemcacheLockTimeoutError)\<rparr>)
     ex_delete_card ex_card ''/addressbooks/user/book/card1.vcf'' ex_book [] =
     (Inl (HTTPError CONFLICT),
      [Quota ex_card (Inr (Some 1000)), QuotaSize ex_card (Inr 120),
       Delete ''/addressbooks/user/book/card1.vcf'' ex_card ''0'' (Inr (Status NO_CONTENT)),
       QuotaSizeAdjust ex_card (- 120) (Inr ()),
       BumpSyncToken ex_book (Inl MemcacheLockTimeoutError)])
   \<and> deleteAddressBookResource ex_env
       ex_delete_card ex_card ''/addressbooks/user/book/card1.vcf'' ex_book [] =
     (Inr (Status NO_CONTENT),
      [Quota ex_card (Inr (Some 1000)), QuotaSize ex_card (Inr 120),
       Delete ''/addressbooks/user/book/card1.vcf'' ex_card ''0'' (Inr (Status NO_CONTENT)),
       QuotaSizeAdjust ex_card (- 120) (Inr ()),
       BumpSyncToken ex_book (Inr 8),
       IndexDeleteResource ex_book ''card1.vcf'' 8 (Inr ())])"
  using deleteAddressBookResource_conflict_iff_collaborator_raises
    [of "MemcacheLock ''ImplicitUIDLock'' ''uid-1'' 60" "Inr ()"
        "ex_env\<lparr>bumpSyncToken := (\<lambda>h r. Inl MemcacheLockTimeoutError)\<rparr>"
        ex_delete_card ex_card "''/addressbooks/user/book/card1.vcf''" ex_book "[]" "Inr ()"]
    deleteAddressBookResource_conflict_iff_collaborator_raises
    [of "MemcacheLock ''ImplicitUIDLock'' ''uid-1'' 60" "Inr ()"
        ex_env
        ex_delete_card ex_card "''/addressbooks/user/book/card1.vcf''" ex_book "[]" "Inr ()"]
  by (simp add: deleteAddressBookResource_def try_except_MemcacheLockTimeoutError_apply call_apply
      ex_env_def ex_delete_card_def ex_card_def)

text \<open>
  The claim as the spec words it says that the outcome is never
  \<open>HTTPError(CONFLICT)\<close>, because no lock is taken. In the run below the store
  raises \<open>MemcacheLockTimeoutError\<close> from the underlying delete, which the \<open>try\<close>
  statement guards, and the outcome is \<open>HTTPError(CONFLICT)\<close>: of the function, and
  of \<open>run\<close>, which hands a delete under an address book collection to it.
\<close>

theorem deleteAddressBookResource_conflict_counterexample:
  "deleteAddressBookResource (ex_env\<lparr>fileop_delete := (\<lambda>h u r d. Inl MemcacheLockTimeoutError)\<rparr>)
     ex_delete_card ex_card ''/addressbooks/user/book/card1.vcf'' ex_book [] =
     (Inl (HTTPError CONFLICT),
      [Quota ex_card (Inr (Some 1000)), QuotaSize ex_card (Inr 120),
       Delete ''/addressbooks/user/book/card1.vcf'' ex_card ''0'' (Inl MemcacheLockTimeoutError)])
   \<and> run (ex_env\<lparr>fileop_delete := (\<lambda>h u r d. Inl MemcacheLockTimeoutError)\<rparr>) ex_delete_card [] =
     (Inl (HTTPError CONFLICT),
      [Quota ex_card (Inr (Some 1000)), QuotaSize ex_card (Inr 120),
       Delete ''/addressbooks/user/book/card1.vcf'' ex_card ''0'' (Inl MemcacheLockTimeoutError)])"
  by (simp add: run_def deleteAddressBookResource_def try_except_MemcacheLockTimeoutError_apply
      call_apply ex_env_def ex_delete_card_def ex_book_def ex_card_def)

subsection \<open>The run of deleteCalendarResource\<close>

lemma andThen_Inr:
  "m h = (Inr x, evs) \<Longrightarrow> andThen m f h = apsnd ((@) evs) (f x (h @ evs))"
  by (simp add: andThen_def split: prod.splits)

lemma andThen_Inl:
  "m h = (Inl e, evs) \<Longrightarrow> andThen m f h = (Inl e, evs)"
  by (simp add: andThen_def)

text \<open>What the block before the \<open>try\<close> calls, and what it leaves in \<open>scheduler\<close> and \<open>lock\<close>.\<close>

lemma setup_run:
  assumes "deleteCalendarResource_setup env self delresource parent h = (res, evs)"
  shows setup_events:
      "ev \<in> set evs \<Longrightarrow>
         (\<exists>r. ev = ICalendarForUser delresource r)
       \<or> (\<exists>c r. ev = TestImplicitSchedulingDELETE delresource c r)
       \<or> (\<exists>r. ev = IsVirtualShare parent r)"
    and setup_scheduler:
      "res = Inr (scheduler, lock) \<Longrightarrow>
         (scheduler \<noteq> None \<longleftrightarrow> \<not> internal_request self \<and> allowImplicitSchedule self)
       \<and> (scheduler \<noteq> None \<longrightarrow>
            (\<exists>cal b. TestImplicitSchedulingDELETE delresource cal (Inr b) \<in> set evs))
       \<and> (lock \<noteq> None \<longrightarrow>
            (\<exists>cal. TestImplicitSchedulingDELETE delresource cal (Inr True) \<in> set evs
               \<and> IsVirtualShare parent (Inr False) \<in> set evs
               \<and> lock = Some (MemcacheLock ''ImplicitUIDLock'' (resourceUID cal) 60)))"
  using assms[symmetric]
  by (auto simp add: deleteCalendarResource_setup_def call_apply split: sum.splits if_splits)

text \<open>What the body of the \<open>try\<close> calls, and in which order.\<close>

lemma body_run:
  assumes "deleteCalendarResource_body env self delresource deluri parent
             myquota old_size scheduler lock h = (res, evs)"
  shows body_acquire:
      "LockAcquire l a \<in> set evs \<Longrightarrow>
         lock = Some l \<and> (a = Inl MemcacheLockTimeoutError \<longrightarrow> res = Inl MemcacheLockTimeoutError)"
    and body_quota:
      "QuotaSizeAdjust r d x \<in> set evs \<Longrightarrow>
         \<exists>resp pre post.
           evs = pre @ Delete deluri delresource (self_depth self) (Inr resp) #
                       QuotaSizeAdjust delresource (- old_size) x # post
           \<and> r = delresource \<and> d = - old_size \<and> myquota \<noteq> None"
    and body_quota_applied:
      "myquota \<noteq> None \<Longrightarrow> Delete deluri delresource (self_depth self) (Inr resp) \<in> set evs \<Longrightarrow>
         \<exists>x. QuotaSizeAdjust delresource (- old_size) x \<in> set evs"
    and body_scheduling:
      "DoImplicitScheduling y \<in> set evs \<Longrightarrow>
         scheduler \<noteq> None \<and> \<not> internal_request self \<and> allowImplicitSchedule self \<and>
         (\<exists>pre. evs = pre @ [DoImplicitScheduling y]
            \<and> Delete deluri delresource (self_depth self) (Inr (Status NO_CONTENT)) \<in> set pre)"
  using assms[symmetric]
  by (auto simp add: deleteCalendarResource_body_def call_apply Cons_eq_append_conv
      split: sum.splits if_splits option.splits)

lemma body_events:
  assumes "deleteCalendarResource_body env self delresource deluri parent
             myquota old_size scheduler lock h = (res, evs)"
    and "ev \<in> set evs"
  shows "(\<exists>l a. ev = LockAcquire l a)
       \<or> (\<exists>r. ev = Delete deluri delresource (self_depth self) r)
       \<or> (\<exists>x. ev = QuotaSizeAdjust delresource (- old_size) x)
       \<or> (\<exists>r. ev = BumpSyncToken parent r)
       \<or> (\<exists>n r. ev = IndexDeleteResource parent (fp_basename delresource) n r)
       \<or> (\<exists>x. ev = DoImplicitScheduling x)"
  using assms(1)[symmetric] assms(2)
  by (auto simp add: deleteCalendarResource_body_def call_apply
      split: sum.splits if_splits option.splits)

text \<open>
  A run either stops before the \<open>try\<close>, with an exception and nothing but
  queries made, or it is made of the quota queries, the scheduling block, the
  body of the \<open>try\<close> and the \<open>finally\<close> clause.
\<close>

lemma deleteCalendarResource_run:
  assumes run: "deleteCalendarResource env self delresource deluri parent h = (res, evs)"
  obtains
    (early) e where "res = Inl e"
      "\<And>ev. ev \<in> set evs \<Longrightarrow>
         (\<exists>r. ev = Quota delresource r) \<or> (\<exists>r. ev = QuotaSize delresource r)
       \<or> (\<exists>r. ev = ICalendarForUser delresource r)
       \<or> (\<exists>c r. ev = TestImplicitSchedulingDELETE delresource c r)
       \<or> (\<exists>r. ev = IsVirtualShare parent r)"
  | (tried) myquota old_size scheduler lock qevs sevs bres bevs cevs where
      "qevs = Quota delresource (Inr myquota)
              # (if myquota \<noteq> None then [QuotaSize delresource (Inr old_size)] else [])"
      "deleteCalendarResource_setup env self delresource parent (h @ qevs)
         = (Inr (scheduler, lock), sevs)"
      "deleteCalendarResource_body env self delresource deluri parent
         myquota old_size scheduler lock (h @ qevs @ sevs) = (bres, bevs)"
      "cevs = (case lock of None \<Rightarrow> []
               | Some l \<Rightarrow> [LockClean l (lock_clean env (h @ qevs @ sevs @ bevs) l)])"
      "evs = qevs @ sevs @ bevs @ cevs"
      "res = (case lock of
                None \<Rightarrow> (if bres = Inl MemcacheLockTimeoutError then Inl (HTTPError CONFLICT) else bres)
              | Some l \<Rightarrow>
                  (case lock_clean env (h @ qevs @ sevs @ bevs) l of
                     Inl f \<Rightarrow> Inl f
                   | Inr u \<Rightarrow> (if bres = Inl MemcacheLockTimeoutError
                               then Inl (HTTPError CONFLICT) else bres)))"
proof -
  define K where "K myquota old_size =
    andThen (deleteCalendarResource_setup env self delresource parent) (\<lambda>(scheduler, lock).
      andThen (try_finally
                (try_except_MemcacheLockTimeoutError
                   (deleteCalendarResource_body env self delresource deluri parent
                      myquota old_size scheduler lock)
                   (raise (HTTPError CONFLICT)))
                (case lock of
                   Some l \<Rightarrow> call (LockClean l) (\<lambda>h. lock_clean env h l)
                 | None \<Rightarrow> returnValue ()))
              (\<lambda>response. returnValue response))" for myquota old_size
  have unfold: "deleteCalendarResource env self delresource deluri parent =
     andThen (lift (validIfScheduleMatch env self)) (\<lambda>_.
     andThen (call (Quota delresource) (\<lambda>h. quota env h delresource)) (\<lambda>myquota.
     andThen (if myquota \<noteq> None
              then call (QuotaSize delresource) (\<lambda>h. quotaSize env h delresource)
              else returnValue 0) (\<lambda>old_size. K myquota old_size)))"
    unfolding deleteCalendarResource_def K_def ..
  have tail: thesis
    if q: "qevs = Quota delresource (Inr myquota)
              # (if myquota \<noteq> None then [QuotaSize delresource (Inr old_size)] else [])"
      and r: "K myquota old_size (h @ qevs) = (res, tevs)"
      and e: "evs = qevs @ tevs"
    for qevs myquota old_size tevs
  proof (cases "deleteCalendarResource_setup env self delresource parent (h @ qevs)")
    case (Pair sres sevs)
    show ?thesis
    proof (cases sres)
      case (Inl x)
      with Pair have sf: "deleteCalendarResource_setup env self delresource parent (h @ qevs)
                = (Inl x, sevs)"
        by simp
      from r have "res = Inl x" "tevs = sevs"
        by (simp_all add: K_def andThen_Inl[where m="deleteCalendarResource_setup env self delresource parent"
              and h="h @ qevs", OF sf])
      with e q Pair show ?thesis
        by (intro early[of x]) (auto dest: setup_events[OF Pair])
    next
      case (Inr sl)
      obtain scheduler lock where sl: "sl = (scheduler, lock)"
        by (cases sl)
      obtain bres bevs where b: "deleteCalendarResource_body env self delresource deluri parent
         myquota old_size scheduler lock (h @ qevs @ sevs) = (bres, bevs)"
        by (cases "deleteCalendarResource_body env self delresource deluri parent
         myquota old_size scheduler lock (h @ qevs @ sevs)")
      let ?cevs = "case lock of None \<Rightarrow> []
                 | Some l \<Rightarrow> [LockClean l (lock_clean env (h @ qevs @ sevs @ bevs) l)]"
      let ?res = "case lock of
                None \<Rightarrow> (if bres = Inl MemcacheLockTimeoutError then Inl (HTTPError CONFLICT) else bres)
              | Some l \<Rightarrow>
                  (case lock_clean env (h @ qevs @ sevs @ bevs) l of
                     Inl f \<Rightarrow> Inl f
                   | Inr u \<Rightarrow> (if bres = Inl MemcacheLockTimeoutError
                               then Inl (HTTPError CONFLICT) else bres))"
      have t: "try_finally
                (try_except_MemcacheLockTimeoutError
                   (deleteCalendarResource_body env self delresource deluri parent
                      myquota old_size scheduler lock)
                   (raise (HTTPError CONFLICT)))
                (case lock of
                   Some l \<Rightarrow> call (LockClean l) (\<lambda>h. lock_clean env h l)
                 | None \<Rightarrow> returnValue ()) (h @ qevs @ sevs) = (?res, bevs @ ?cevs)"
      proof (cases lock)
        case None
        with b show ?thesis
          by (simp add: try_finally_apply try_except_MemcacheLockTimeoutError_apply)
      next
        case (Some l)
        with b show ?thesis
          by (simp add: try_finally_apply try_except_MemcacheLockTimeoutError_apply call_apply
              split: sum.split)
      qed
      have s: "deleteCalendarResource_setup env self delresource parent (h @ qevs)
                = (Inr (scheduler, lock), sevs)"
        using Pair Inr sl by simp
      have "(res, tevs) = (?res, sevs @ bevs @ ?cevs)"
        using r
        by (simp add: K_def andThen_Inr[where m="deleteCalendarResource_setup env self delresource parent"
              and h="h @ qevs", OF s] t)
      then have "res = ?res" "evs = qevs @ sevs @ bevs @ ?cevs"
        using e by simp_all
      moreover have "deleteCalendarResource_setup env self delresource parent (h @ qevs)
                = (Inr (scheduler, lock), sevs)"
        using Pair Inr sl by simp
      ultimately show ?thesis
        using tried[OF q _ b refl] by blast
    qed
  qed
  show thesis
  proof (cases "validIfScheduleMatch env self")
    case (Inl e)
    with run show ?thesis
      by (intro early[of e]) (auto simp add: unfold)
  next
    case valid: (Inr u)
    show ?thesis
    proof (cases "quota env h delresource")
      case (Inl f)
      with valid run show ?thesis
        by (intro early[of f]) (auto simp add: unfold)
    next
      case q: (Inr myquota)
      show ?thesis
      proof (cases myquota)
        case None
        obtain tres tevs where t: "K None 0 (h @ [Quota delresource (Inr None)]) = (tres, tevs)"
          by (cases "K None 0 (h @ [Quota delresource (Inr None)])")
        with run valid q None have "res = tres" "evs = [Quota delresource (Inr None)] @ tevs"
          by (simp_all add: unfold)
        with t show ?thesis
          by (intro tail[of "[Quota delresource (Inr None)]" None 0 tevs]) simp_all
      next
        case (Some n)
        show ?thesis
        proof (cases "quotaSize env (h @ [Quota delresource (Inr (Some n))]) delresource")
          case (Inl f)
          with valid q Some run show ?thesis
            by (intro early[of f]) (auto simp add: unfold)
        next
          case qs: (Inr old_size)
          let ?q = "[Quota delresource (Inr (Some n)), QuotaSize delresource (Inr old_size)]"
          obtain tres tevs where t: "K (Some n) old_size (h @ ?q) = (tres, tevs)"
            by (cases "K (Some n) old_size (h @ ?q)")
          with run valid q Some qs have "res = tres" "evs = ?q @ tevs"
            by (simp_all add: unfold)
          with t show ?thesis
            by (intro tail[of ?q "Some n" old_size tevs]) simp_all
        qed
      qed
    qed
  qed
qed

subsection \<open>The lock is released\<close>

text \<open>
  Claim C9. Whenever \<open>deleteCalendarResource\<close> has called \<open>lock.acquire\<close>, whatever
  that call answered and whatever happened afterwards in the body, the last
  call of the run is \<open>lock.clean\<close> on the same lock. When the acquisition timed
  out (and the clean-up itself returned), the outcome is \<open>HTTPError(CONFLICT)\<close>.
\<close>

theorem deleteCalendarResource_lock_released:
  assumes acq: "LockAcquire l a \<in> set (snd (deleteCalendarResource env self delresource deluri parent h))"
  shows "\<exists>pre c. snd (deleteCalendarResource env self delresource deluri parent h) = pre @ [LockClean l c]
           \<and> LockAcquire l a \<in> set pre
           \<and> (a = Inl MemcacheLockTimeoutError \<and> c = Inr () \<longrightarrow>
                fst (deleteCalendarResource env self delresource deluri parent h) = Inl (HTTPError CONFLICT))"
proof -
  obtain res evs where run: "deleteCalendarResource env self delresource deluri parent h = (res, evs)"
    by (cases "deleteCalendarResource env self delresource deluri parent h")
  from acq run have mem: "LockAcquire l a \<in> set evs"
    by simp
  from run show ?thesis
  proof (cases rule: deleteCalendarResource_run)
    case (early e)
    from early(2)[OF mem] show ?thesis
      by auto
  next
    case (tried myquota old_size scheduler lock qevs sevs bres bevs cevs)
    have "LockAcquire l a \<notin> set qevs"
      using tried(1) by auto
    moreover have "LockAcquire l a \<notin> set sevs"
      using setup_events[OF tried(2), of "LockAcquire l a"] by auto
    moreover have "LockAcquire l a \<notin> set cevs"
      using tried(4) by (auto split: option.splits)
    ultimately have b: "LockAcquire l a \<in> set bevs"
      using mem tried(5) by auto
    from body_acquire[OF tried(3) b]
    have lock: "lock = Some l"
      and timeout: "a = Inl MemcacheLockTimeoutError \<longrightarrow> bres = Inl MemcacheLockTimeoutError"
      by simp_all
    let ?c = "lock_clean env (h @ qevs @ sevs @ bevs) l"
    have "evs = (qevs @ sevs @ bevs) @ [LockClean l ?c]"
      using tried(4,5) lock by simp
    moreover have "LockAcquire l a \<in> set (qevs @ sevs @ bevs)"
      using b by simp
    moreover have "a = Inl MemcacheLockTimeoutError \<and> ?c = Inr () \<longrightarrow> res = Inl (HTTPError CONFLICT)"
      using tried(6) lock timeout by simp
    ultimately show ?thesis
      using run by (intro exI[of _ "qevs @ sevs @ bevs"] exI[of _ ?c]) simp
  qed
qed

theorem deleteCalendarResource_lock_released_witness:
  "LockAcquire (MemcacheLock ''ImplicitUIDLock'' ''uid-1'' 60) (Inl MemcacheLockTimeoutError)
     \<in> set (snd (deleteCalendarResource
                   (ex_env\<lparr>testImplicitSchedulingDELETE := (\<lambda>h r c. Inr True),
                           lock_acquire := (\<lambda>h l. Inl MemcacheLockTimeoutError)\<rparr>)
                   ex_delete_event ex_event ''/calendars/user/home/event1.ics'' ex_home []))
   \<and> deleteCalendarResource
        (ex_env\<lparr>testImplicitSchedulingDELETE := (\<lambda>h r c. Inr True),
                lock_acquire := (\<lambda>h l. Inl MemcacheLockTimeoutError)\<rparr>)
        ex_delete_event ex_event ''/calendars/user/home/event1.ics'' ex_home [] =
      (Inl (HTTPError CONFLICT),
       [Quota ex_event (Inr (Some 1000)), QuotaSize ex_event (Inr 120),
        ICalendarForUser ex_event (Inr \<lparr>resourceUID = ''uid-1''\<rparr>),
        TestImplicitSchedulingDELETE ex_event \<lparr>resourceUID = ''uid-1''\<rparr> (Inr True),
        IsVirtualShare ex_home (Inr False),
        LockAcquire (MemcacheLock ''ImplicitUIDLock'' ''uid-1'' 60) (Inl MemcacheLockTimeoutError)]
       @ [LockClean (MemcacheLock ''ImplicitUIDLock'' ''uid-1'' 60) (Inr ())])"
  using deleteCalendarResource_lock_released
    [of "MemcacheLock ''ImplicitUIDLock'' ''uid-1'' 60" "Inl MemcacheLockTimeoutError"
        "ex_env\<lparr>testImplicitSchedulingDELETE := (\<lambda>h r c. Inr True),
                lock_acquire := (\<lambda>h l. Inl MemcacheLockTimeoutError)\<rparr>"
        ex_delete_event ex_event "''/calendars/user/home/event1.ics''" ex_home "[]"]
  by (simp add: deleteCalendarResource_def deleteCalendarResource_setup_def deleteCalendarResource_body_def
     validIfScheduleMatch_def try_finally_apply
  try_except_MemcacheLockTimeoutError_apply call_apply
  ex_env_def ex_delete_event_def ex_event_def)

subsection \<open>The notification step\<close>

text \<open>
  Claim C1, as the code has it. \<open>scheduler.doImplicitScheduling\<close> is called only
  on a client request with implicit scheduling allowed, after
  \<open>testImplicitSchedulingDELETE\<close> has returned (with either answer) and after the
  underlying delete has returned \<open>NO_CONTENT\<close>; only the release of the lock can
  follow it.
\<close>

theorem deleteCalendarResource_scheduling_after_delete:
  assumes sched: "DoImplicitScheduling x \<in> set (snd (deleteCalendarResource env self delresource deluri parent h))"
  shows "\<not> internal_request self \<and> allowImplicitSchedule self \<and>
         (\<exists>pre post cal b.
            snd (deleteCalendarResource env self delresource deluri parent h)
              = pre @ DoImplicitScheduling x # post
            \<and> TestImplicitSchedulingDELETE delresource cal (Inr b) \<in> set pre
            \<and> Delete deluri delresource (self_depth self) (Inr (Status NO_CONTENT)) \<in> set pre
            \<and> (post = [] \<or> (\<exists>l c. post = [LockClean l c])))"
proof -
  obtain res evs where run: "deleteCalendarResource env self delresource deluri parent h = (res, evs)"
    by (cases "deleteCalendarResource env self delresource deluri parent h")
  from sched run have mem: "DoImplicitScheduling x \<in> set evs"
    by simp
  from run show ?thesis
  proof (cases rule: deleteCalendarResource_run)
    case (early e)
    from early(2)[OF mem] show ?thesis
      by auto
  next
    case (tried myquota old_size scheduler lock qevs sevs bres bevs cevs)
    have "DoImplicitScheduling x \<notin> set qevs"
      using tried(1) by auto
    moreover have "DoImplicitScheduling x \<notin> set sevs"
      using setup_events[OF tried(2), of "DoImplicitScheduling x"] by auto
    moreover have "DoImplicitScheduling x \<notin> set cevs"
      using tried(4) by (auto split: option.splits)
    ultimately have b: "DoImplicitScheduling x \<in> set bevs"
      using mem tried(5) by auto
    from body_scheduling[OF tried(3) b]
    obtain bpre where s: "scheduler \<noteq> None" "\<not> internal_request self" "allowImplicitSchedule self"
      and bevs: "bevs = bpre @ [DoImplicitScheduling x]"
      and del: "Delete deluri delresource (self_depth self) (Inr (Status NO_CONTENT)) \<in> set bpre"
      by blast
    from setup_scheduler[OF tried(2) refl] s(1)
    obtain cal b where test: "TestImplicitSchedulingDELETE delresource cal (Inr b) \<in> set sevs"
      by blast
    have "evs = (qevs @ sevs @ bpre) @ DoImplicitScheduling x # cevs"
      using tried(5) bevs by simp
    moreover have "cevs = [] \<or> (\<exists>l c. cevs = [LockClean l c])"
      using tried(4) by (auto split: option.splits)
    ultimately show ?thesis
      using run s test del
      by (intro conjI exI[of _ "qevs @ sevs @ bpre"] exI[of _ cevs] exI[of _ cal] exI[of _ b]) simp_all
  qed
qed

theorem deleteCalendarResource_scheduling_after_delete_witness:
  "DoImplicitScheduling (Inr ())
     \<in> set (snd (deleteCalendarResource (ex_env\<lparr>testImplicitSchedulingDELETE := (\<lambda>h r c. Inr True)\<rparr>)
                   ex_delete_event ex_event ''/calendars/user/home/event1.ics'' ex_home []))
   \<and> \<not> internal_request ex_delete_event \<and> allowImplicitSchedule ex_delete_event
   \<and> snd (deleteCalendarResource (ex_env\<lparr>testImplicitSchedulingDELETE := (\<lambda>h r c. Inr True)\<rparr>)
            ex_delete_event ex_event ''/calendars/user/home/event1.ics'' ex_home []) =
      [Quota ex_event (Inr (Some 1000)), QuotaSize ex_event (Inr 120),
       ICalendarForUser ex_event (Inr \<lparr>resourceUID = ''uid-1''\<rparr>),
       TestImplicitSchedulingDELETE ex_event \<lparr>resourceUID = ''uid-1''\<rparr> (Inr True),
       IsVirtualShare ex_home (Inr False),
       LockAcquire (MemcacheLock ''ImplicitUIDLock'' ''uid-1'' 60) (Inr ()),
       Delete ''/calendars/user/home/event1.ics'' ex_event ''0'' (Inr (Status NO_CONTENT)),
       QuotaSizeAdjust ex_event (- 120) (Inr ()),
       BumpSyncToken ex_home (Inr 8),
       IndexDeleteResource ex_home ''event1.ics'' 8 (Inr ())]
      @ DoImplicitScheduling (Inr ())
      # [LockClean (MemcacheLock ''ImplicitUIDLock'' ''uid-1'' 60) (Inr ())]"
  using deleteCalendarResource_scheduling_after_delete
    [of "Inr ()" "ex_env\<lparr>testImplicitSchedulingDELETE := (\<lambda>h r c. Inr True)\<rparr>"
        ex_delete_event ex_event "''/calendars/user/home/event1.ics''" ex_home "[]"]
  by (simp add: deleteCalendarResource_def deleteCalendarResource_setup_def deleteCalendarResource_body_def
     validIfScheduleMatch_def try_finally_apply
  try_except_MemcacheLockTimeoutError_apply call_apply
  ex_env_def ex_delete_event_def ex_event_def)

text \<open>
  The claim as the spec words it asks for more: that the notification step runs
  only when \<open>testImplicitSchedulingDELETE\<close> reported that a notification is
  needed. In the run below it reported \<open>False\<close>, no lock was taken, and
  \<open>doImplicitScheduling\<close> was called all the same: a scheduler object exists
  whenever the request is a client request with implicit scheduling allowed.
\<close>

theorem scheduling_without_trigger_counterexample:
  "deleteCalendarResource ex_env ex_delete_event ex_event ''/calendars/user/home/event1.ics'' ex_home [] =
     (Inr (Status NO_CONTENT),
      [Quota ex_event (Inr (Some 1000)), QuotaSize ex_event (Inr 120),
       ICalendarForUser ex_event (Inr \<lparr>resourceUID = ''uid-1''\<rparr>),
       TestImplicitSchedulingDELETE ex_event \<lparr>resourceUID = ''uid-1''\<rparr> (Inr False),
       Delete ''/calendars/user/home/event1.ics'' ex_event ''0'' (Inr (Status NO_CONTENT)),
       QuotaSizeAdjust ex_event (- 120) (Inr ()),
       BumpSyncToken ex_home (Inr 8),
       IndexDeleteResource ex_home ''event1.ics'' 8 (Inr ()),
       DoImplicitScheduling (Inr ())])"
  by (simp add: deleteCalendarResource_def deleteCalendarResource_setup_def deleteCalendarResource_body_def
     validIfScheduleMatch_def try_finally_apply
  try_except_MemcacheLockTimeoutError_apply call_apply
  ex_env_def ex_delete_event_def ex_event_def)


subsection \<open>The run of deleteResource\<close>

lemma deleteResource_run:
  assumes "deleteResource env self delresource deluri parent h = (res, evs)"
  shows deleteResource_quota:
      "QuotaSizeAdjust r d x \<in> set evs \<Longrightarrow>
         \<exists>q sz resp post.
           evs = Quota delresource (Inr (Some q)) # QuotaSize delresource (Inr sz) #
                 Delete deluri delresource (self_depth self) (Inr resp) #
                 QuotaSizeAdjust delresource (- sz) x # post
           \<and> r = delresource \<and> d = - sz"
    and deleteResource_quota_applied:
      "Quota delresource (Inr (Some q)) \<in> set evs \<Longrightarrow>
       Delete deluri delresource (self_depth self) (Inr resp) \<in> set evs \<Longrightarrow>
         \<exists>sz x. QuotaSizeAdjust delresource (- sz) x \<in> set evs"
    and deleteResource_bump:
      "BumpSyncToken c y \<in> set evs \<Longrightarrow>
         c = parent \<and> isPseudoCalendarCollection parent
         \<and> (\<exists>pre post. evs = pre @ Delete deluri delresource (self_depth self) (Inr (Status NO_CONTENT))
                                  # post
               \<and> BumpSyncToken parent y \<in> set post
               \<and> (\<forall>z. BumpSyncToken parent z \<notin> set pre)
               \<and> length (filter (\<lambda>ev. \<exists>z. ev = BumpSyncToken parent z) post) = 1)"
  using assms[symmetric]
  by (auto simp add: deleteResource_def call_apply Cons_eq_append_conv
      split: sum.splits if_splits option.splits)

lemma deleteResource_result:
  "deleteResource env self delresource deluri parent h = (Inr own, evs) \<Longrightarrow>
     Delete deluri delresource (self_depth self) (Inr own) \<in> set evs"
  by (auto simp add: deleteResource_def call_apply split: sum.splits if_splits option.splits)

subsection \<open>The quota adjustment\<close>

text \<open>
  Claim C3, as the code has it. In \<open>deleteResource\<close> and in
  \<open>deleteCalendarResource\<close> the call \<open>quotaSizeAdjust(-old_size)\<close> is made only when
  the resource reported a quota, with the size read before the delete, and
  right after the underlying delete has returned: whatever it returned. It is
  made whenever the resource reported a quota and the delete returned. Only a
  delete that raises, or a resource without quota, leaves the quota alone.
\<close>

theorem quota_adjusted_when_delete_returns:
  "(QuotaSizeAdjust r d x \<in> set (snd (deleteResource env self delresource deluri parent h)) \<longrightarrow>
      (\<exists>q sz resp post.
         snd (deleteResource env self delresource deluri parent h) =
           Quota delresource (Inr (Some q)) # QuotaSize delresource (Inr sz) #
           Delete deluri delresource (self_depth self) (Inr resp) #
           QuotaSizeAdjust delresource (- sz) x # post
         \<and> r = delresource \<and> d = - sz))
   \<and> (Quota delresource (Inr (Some q')) \<in> set (snd (deleteResource env self delresource deluri parent h))
      \<and> Delete deluri delresource (self_depth self) (Inr resp')
           \<in> set (snd (deleteResource env self delresource deluri parent h)) \<longrightarrow>
      (\<exists>sz x. QuotaSizeAdjust delresource (- sz) x
                 \<in> set (snd (deleteResource env self delresource deluri parent h))))
   \<and> (QuotaSizeAdjust r d x \<in> set (snd (deleteCalendarResource env self delresource deluri parent h)) \<longrightarrow>
      (\<exists>q sz resp mid post.
         snd (deleteCalendarResource env self delresource deluri parent h) =
           Quota delresource (Inr (Some q)) # QuotaSize delresource (Inr sz) # mid @
           Delete deluri delresource (self_depth self) (Inr resp) #
           QuotaSizeAdjust delresource (- sz) x # post
         \<and> r = delresource \<and> d = - sz))
   \<and> (Quota delresource (Inr (Some q'))
           \<in> set (snd (deleteCalendarResource env self delresource deluri parent h))
      \<and> Delete deluri delresource (self_depth self) (Inr resp')
           \<in> set (snd (deleteCalendarResource env self delresource deluri parent h)) \<longrightarrow>
      (\<exists>sz x. QuotaSizeAdjust delresource (- sz) x
                 \<in> set (snd (deleteCalendarResource env self delresource deluri parent h))))"
proof (intro conjI impI)
  obtain res evs where run: "deleteResource env self delresource deluri parent h = (res, evs)"
    by (cases "deleteResource env self delresource deluri parent h")
  {
    assume "QuotaSizeAdjust r d x \<in> set (snd (deleteResource env self delresource deluri parent h))"
    with run deleteResource_quota[OF run, of r d x]
    show "\<exists>q sz resp post.
         snd (deleteResource env self delresource deluri parent h) =
           Quota delresource (Inr (Some q)) # QuotaSize delresource (Inr sz) #
           Delete deluri delresource (self_depth self) (Inr resp) #
           QuotaSizeAdjust delresource (- sz) x # post
         \<and> r = delresource \<and> d = - sz"
      by simp
  }
  {
    assume "Quota delresource (Inr (Some q')) \<in> set (snd (deleteResource env self delresource deluri parent h))
      \<and> Delete deluri delresource (self_depth self) (Inr resp')
           \<in> set (snd (deleteResource env self delresource deluri parent h))"
    with run deleteResource_quota_applied[OF run, of q' resp']
    show "\<exists>sz x. QuotaSizeAdjust delresource (- sz) x
                 \<in> set (snd (deleteResource env self delresource deluri parent h))"
      by simp
  }
next
  obtain res evs where run: "deleteCalendarResource env self delresource deluri parent h = (res, evs)"
    by (cases "deleteCalendarResource env self delresource deluri parent h")
  {
    assume "QuotaSizeAdjust r d x \<in> set (snd (deleteCalendarResource env self delresource deluri parent h))"
    with run have mem: "QuotaSizeAdjust r d x \<in> set evs"
      by simp
    from run have "\<exists>q sz resp mid post.
         evs = Quota delresource (Inr (Some q)) # QuotaSize delresource (Inr sz) # mid @
           Delete deluri delresource (self_depth self) (Inr resp) #
           QuotaSizeAdjust delresource (- sz) x # post
         \<and> r = delresource \<and> d = - sz"
    proof (cases rule: deleteCalendarResource_run)
      case (early e)
      from early(2)[OF mem] show ?thesis
        by auto
    next
      case (tried myquota old_size scheduler lock qevs sevs bres bevs cevs)
      have "QuotaSizeAdjust r d x \<notin> set qevs"
        using tried(1) by auto
      moreover have "QuotaSizeAdjust r d x \<notin> set sevs"
        using setup_events[OF tried(2), of "QuotaSizeAdjust r d x"] by auto
      moreover have "QuotaSizeAdjust r d x \<notin> set cevs"
        using tried(4) by (auto split: option.splits)
      ultimately have b: "QuotaSizeAdjust r d x \<in> set bevs"
        using mem tried(5) by auto
      from body_quota[OF tried(3) b]
      obtain resp bpre bpost where
        bevs: "bevs = bpre @ Delete deluri delresource (self_depth self) (Inr resp) #
                      QuotaSizeAdjust delresource (- old_size) x # bpost"
        and eq: "r = delresource" "d = - old_size" and q: "myquota \<noteq> None"
        by blast
      from q obtain n where n: "myquota = Some n"
        by auto
      have "evs = Quota delresource (Inr (Some n)) # QuotaSize delresource (Inr old_size) #
                  (sevs @ bpre) @ Delete deluri delresource (self_depth self) (Inr resp) #
                  QuotaSizeAdjust delresource (- old_size) x # (bpost @ cevs)"
        using tried(1,5) bevs n by simp
      with eq show ?thesis
        by blast
    qed
    with run
    show "\<exists>q sz resp mid post.
         snd (deleteCalendarResource env self delresource deluri parent h) =
           Quota delresource (Inr (Some q)) # QuotaSize delresource (Inr sz) # mid @
           Delete deluri delresource (self_depth self) (Inr resp) #
           QuotaSizeAdjust delresource (- sz) x # post
         \<and> r = delresource \<and> d = - sz"
      by simp
  }
  {
    assume "Quota delresource (Inr (Some q'))
           \<in> set (snd (deleteCalendarResource env self delresource deluri parent h))
      \<and> Delete deluri delresource (self_depth self) (Inr resp')
           \<in> set (snd (deleteCalendarResource env self delresource deluri parent h))"
    with run have mq: "Quota delresource (Inr (Some q')) \<in> set evs"
      and md: "Delete deluri delresource (self_depth self) (Inr resp') \<in> set evs"
      by simp_all
    from run have "\<exists>sz x. QuotaSizeAdjust delresource (- sz) x \<in> set evs"
    proof (cases rule: deleteCalendarResource_run)
      case (early e)
      from early(2)[OF md] show ?thesis
        by auto
    next
      case (tried myquota old_size scheduler lock qevs sevs bres bevs cevs)
      have "Quota delresource (Inr (Some q')) \<notin> set sevs"
        using setup_events[OF tried(2), of "Quota delresource (Inr (Some q'))"] by auto
      moreover have "Quota delresource (Inr (Some q')) \<notin> set bevs"
        using body_events[OF tried(3), of "Quota delresource (Inr (Some q'))"] by auto
      moreover have "Quota delresource (Inr (Some q')) \<notin> set cevs"
        using tried(4) by (auto split: option.splits)
      ultimately have "Quota delresource (Inr (Some q')) \<in> set qevs"
        using mq tried(5) by auto
      then have q: "myquota \<noteq> None"
        using tried(1) by (auto split: if_splits)
      have "Delete deluri delresource (self_depth self) (Inr resp') \<notin> set qevs"
        using tried(1) by auto
      moreover have "Delete deluri delresource (self_depth self) (Inr resp') \<notin> set sevs"
        using setup_events[OF tried(2), of "Delete deluri delresource (self_depth self) (Inr resp')"]
        by auto
      moreover have "Delete deluri delresource (self_depth self) (Inr resp') \<notin> set cevs"
        using tried(4) by (auto split: option.splits)
      ultimately have "Delete deluri delresource (self_depth self) (Inr resp') \<in> set bevs"
        using md tried(5) by auto
      from body_quota_applied[OF tried(3) q this] tried(5) show ?thesis
        by auto
    qed
    with run
    show "\<exists>sz x. QuotaSizeAdjust delresource (- sz) x
                 \<in> set (snd (deleteCalendarResource env self delresource deluri parent h))"
      by simp
  }
qed

theorem quota_adjusted_when_delete_returns_witness:
  "QuotaSizeAdjust ex_event (- 120) (Inr ())
     \<in> set (snd (deleteResource ex_env ex_delete_event ex_event
                   ''/calendars/user/home/event1.ics'' ex_home []))
   \<and> Quota ex_event (Inr (Some 1000))
     \<in> set (snd (deleteResource ex_env ex_delete_event ex_event
                   ''/calendars/user/home/event1.ics'' ex_home []))
   \<and> Delete ''/calendars/user/home/event1.ics'' ex_event (self_depth ex_delete_event)
        (Inr (Status NO_CONTENT))
     \<in> set (snd (deleteResource ex_env ex_delete_event ex_event
                   ''/calendars/user/home/event1.ics'' ex_home []))
   \<and> QuotaSizeAdjust ex_event (- 120) (Inr ())
     \<in> set (snd (deleteCalendarResource ex_env ex_delete_event ex_event
                   ''/calendars/user/home/event1.ics'' ex_home []))
   \<and> Quota ex_event (Inr (Some 1000))
     \<in> set (snd (deleteCalendarResource ex_env ex_delete_event ex_event
                   ''/calendars/user/home/event1.ics'' ex_home []))
   \<and> Delete ''/calendars/user/home/event1.ics'' ex_event (self_depth ex_delete_event)
        (Inr (Status NO_CONTENT))
     \<in> set (snd (deleteCalendarResource ex_env ex_delete_event ex_event
                   ''/calendars/user/home/event1.ics'' ex_home []))
   \<and> snd (deleteResource ex_env ex_delete_event ex_event
            ''/calendars/user/home/event1.ics'' ex_home []) =
       [Quota ex_event (Inr (Some 1000)), QuotaSize ex_event (Inr 120),
        Delete ''/calendars/user/home/event1.ics'' ex_event ''0'' (Inr (Status NO_CONTENT)),
        QuotaSizeAdjust ex_event (- 120) (Inr ()),
        BumpSyncToken ex_home (Inr 8),
        IndexDeleteResource ex_home ''event1.ics'' 8 (Inr ())]"
  using quota_adjusted_when_delete_returns
    [of ex_event "- 120" "Inr ()" ex_env ex_delete_event ex_event
        "''/calendars/user/home/event1.ics''" ex_home "[]" 1000 "Status NO_CONTENT"]
  by (simp add: deleteResource_def deleteCalendarResource_def
  deleteCalendarResource_setup_def deleteCalendarResource_body_def validIfScheduleMatch_def try_finally_apply 
  try_except_MemcacheLockTimeoutError_apply call_apply  ex_env_def ex_delete_event_def ex_event_def ex_home_def)

text \<open>
  The claim as the spec words it ties the adjustment to a \<open>NO_CONTENT\<close> answer. In
  the run below the delete of the collection answers with a multi-status (one
  member could not be removed), and the quota is adjusted by the full size all
  the same: the adjustment comes before the test of the answer.
\<close>

theorem quota_adjusted_after_failed_delete_counterexample:
  "deleteResource
     (ex_env\<lparr>fileop_delete :=
        (\<lambda>h u r d. Inr (MultiStatusResponse [(''/calendars/user/home/event1.ics'', FORBIDDEN)]))\<rparr>)
     ex_delete_home ex_home ''/calendars/user/home'' ex_user [] =
   (Inr (MultiStatusResponse [(''/calendars/user/home/event1.ics'', FORBIDDEN)]),
    [Quota ex_home (Inr (Some 1000)), QuotaSize ex_home (Inr 120),
     Delete ''/calendars/user/home'' ex_home ''infinity''
       (Inr (MultiStatusResponse [(''/calendars/user/home/event1.ics'', FORBIDDEN)])),
     QuotaSizeAdjust ex_home (- 120) (Inr ())])"
  by (simp add: deleteResource_def call_apply ex_env_def ex_delete_home_def ex_user_def)

subsection \<open>The loop over the children\<close>

lemma try_except_apply:
  "try_except body handler h =
     (case fst (body h) of
        Inl e \<Rightarrow> (fst (handler (h @ snd (body h))), snd (body h) @ snd (handler (h @ snd (body h))))
      | Inr x \<Rightarrow> body h)"
  by (simp add: try_except_def split: prod.splits sum.splits)

lemma child_step:
  "try_except (andThen m (\<lambda>_. returnValue errors)) (returnValue errors') h =
     (Inr (case fst (m h) of Inl e \<Rightarrow> errors' | Inr x \<Rightarrow> errors), snd (m h))"
  by (simp add: try_except_apply andThen_def split: prod.splits sum.splits)

text \<open>
  The loop stops early only when a child cannot be located. An exception of a
  child's delete is swallowed and recorded, and the loop goes on.
\<close>

lemma children_loop:
  "deleteCalendar_children env self delresource deluri names errors h = (res, evs) \<Longrightarrow>
     (\<forall>errors'. res = Inr errors' \<longrightarrow>
        errors' = fold (\<lambda>u q. ResponseQueue_add q u BAD_REQUEST)
                    (failed_children env self delresource deluri names h) errors
        \<and> (\<forall>n \<in> set names. \<exists>child. LocateChildResource delresource n (Inr child) \<in> set evs))
   \<and> (\<forall>e. res = Inl e \<longrightarrow>
        (\<exists>n. LocateChildResource delresource n (Inl e) \<in> set evs))"
proof (induction names arbitrary: errors h res evs)
  case Nil
  then show ?case by auto
next
  case (Cons n names)
  show ?case
  proof (cases "locateChildResource env h delresource n")
    case (Inl f)
    with Cons.prems show ?thesis
      by (auto simp add: Let_def)
  next
    case (Inr child)
    let ?h1 = "h @ [LocateChildResource delresource n (Inr child)]"
    let ?r = "deleteCalendarResource env self child (joinURL env deluri n) delresource ?h1"
    let ?errors1 = "case fst ?r of
                      Inl e \<Rightarrow> ResponseQueue_add errors (joinURL env deluri n) BAD_REQUEST
                    | Inr x \<Rightarrow> errors"
    obtain res' evs' where rest:
      "deleteCalendar_children env self delresource deluri names ?errors1 (?h1 @ snd ?r) = (res', evs')"
      by (cases "deleteCalendar_children env self delresource deluri names ?errors1 (?h1 @ snd ?r)")
    have step: "try_except
                  (andThen (deleteCalendarResource env self child (joinURL env deluri n) delresource)
                     (\<lambda>_. returnValue errors))
                  (returnValue (ResponseQueue_add errors (joinURL env deluri n) BAD_REQUEST)) ?h1
                = (Inr ?errors1, snd ?r)"
      by (rule child_step)
    from Cons.prems Inr rest
    have res: "res = res'"
      and evs: "evs = LocateChildResource delresource n (Inr child) # snd ?r @ evs'"
      by (simp_all add: Let_def
          andThen_Inr[where m="try_except
                  (andThen (deleteCalendarResource env self child (joinURL env deluri n) delresource)
                     (\<lambda>_. returnValue errors))
                  (returnValue (ResponseQueue_add errors (joinURL env deluri n) BAD_REQUEST))"
            and h="?h1", OF step])
    from Cons.IH[OF rest] res evs Inr show ?thesis
      by (auto simp add: Let_def split: sum.splits) blast+
  qed
qed

lemma failed_children_subset:
  "set (failed_children env self delresource deluri names h) \<subseteq> joinURL env deluri ` set names"
  by (induction names arbitrary: h) (auto simp add: Let_def split: sum.splits)

lemma failed_children_distinct:
  "distinct (map (joinURL env deluri) names) \<Longrightarrow>
     distinct (failed_children env self delresource deluri names h)"
proof (induction names arbitrary: h)
  case Nil
  then show ?case by simp
next
  case (Cons n names)
  then show ?case
    using failed_children_subset[of env self delresource deluri names]
    by (auto simp add: Let_def split: sum.splits)
qed

lemma update_fresh: "k \<notin> fst ` set al \<Longrightarrow> AList.update k v al = al @ [(k, v)]"
  by (induction al) auto

lemma fold_ResponseQueue_add:
  "distinct us \<Longrightarrow> set us \<inter> fst ` set (responses q) = {} \<Longrightarrow>
     fold (\<lambda>u q. ResponseQueue_add q u c) us q = q\<lparr>responses := responses q @ map (\<lambda>u. (u, c)) us\<rparr>"
proof (induction us arbitrary: q)
  case Nil
  then show ?case by simp
next
  case (Cons u us)
  from Cons.prems have fresh: "u \<notin> fst ` set (responses q)"
    by auto
  have "set us \<inter> fst ` set (responses (ResponseQueue_add q u c)) = {}"
    using Cons.prems fresh by (auto simp add: ResponseQueue_add_def update_fresh)
  with Cons.IH[of "ResponseQueue_add q u c"] Cons.prems fresh show ?case
    by (simp add: ResponseQueue_add_def update_fresh)
qed

subsection \<open>The run of deleteCalendar\<close>

lemma andThen_deleteResource:
  "andThen (deleteResource env self delresource deluri parent) f h =
     (case fst (deleteResource env self delresource deluri parent h) of
        Inl e \<Rightarrow> (Inl e, snd (deleteResource env self delresource deluri parent h))
      | Inr x \<Rightarrow>
          apsnd ((@) (snd (deleteResource env self delresource deluri parent h)))
            (f x (h @ snd (deleteResource env self delresource deluri parent h))))"
  by (simp add: andThen_def split: sum.splits prod.splits)

lemma deleteCalendar_after_children:
  assumes "deleteCalendar_finish env self delresource deluri parent errors H = (Inr resp, evs)"
  shows "\<exists>b rev own.
      isShared env H delresource = Inr b
    \<and> bumpSyncToken env
        (H @ IsShared delresource (Inr b)
           # (if b then [DowngradeFromShare delresource (Inr ())] else [])) delresource = Inr rev
    \<and> fst (deleteResource env self delresource deluri parent
             (H @ (IsShared delresource (Inr b)
                   # (if b then [DowngradeFromShare delresource (Inr ())] else []))
                @ [BumpSyncToken delresource (Inr rev)])) = Inr own
    \<and> resp = ResponseQueue_response (merge_errors errors own)
    \<and> evs = (IsShared delresource (Inr b)
             # (if b then [DowngradeFromShare delresource (Inr ())] else []))
            @ BumpSyncToken delresource (Inr rev)
            # snd (deleteResource env self delresource deluri parent
                     (H @ (IsShared delresource (Inr b)
                           # (if b then [DowngradeFromShare delresource (Inr ())] else []))
                        @ [BumpSyncToken delresource (Inr rev)]))
            @ (if resp = Status NO_CONTENT then [DeletedCalendar delresource (Inr ())] else [])"
  using assms[symmetric]
  by (auto simp add: deleteCalendar_finish_def andThen_deleteResource call_apply Let_def
      split: sum.splits if_splits)

lemma deleteCalendar_run:
  assumes "isDefaultCalendar env h delresource = Inr False"
    and "self_depth self = ''infinity''"
    and "isVirtualShare env (h @ [IsDefaultCalendar delresource (Inr False)]) delresource = Inr False"
    and "listChildren env
           (h @ [IsDefaultCalendar delresource (Inr False), IsVirtualShare delresource (Inr False)])
           delresource = Inr names"
    and run: "deleteCalendar env self delresource deluri parent h = (Inr resp, evs)"
  obtains errors gevs cevs fevs where
    "gevs = [IsDefaultCalendar delresource (Inr False), IsVirtualShare delresource (Inr False),
             ListChildren delresource (Inr names)]"
    "deleteCalendar_children env self delresource deluri names
       (new_ResponseQueue deluri ''DELETE'' (Status NO_CONTENT)) (h @ gevs) = (Inr errors, cevs)"
    "deleteCalendar_finish env self delresource deluri parent errors (h @ gevs @ cevs)
       = (Inr resp, fevs)"
    "evs = gevs @ cevs @ fevs"
proof -
  let ?g = "[IsDefaultCalendar delresource (Inr False), IsVirtualShare delresource (Inr False),
             ListChildren delresource (Inr names)]"
  let ?loop = "deleteCalendar_children env self delresource deluri names
       (new_ResponseQueue deluri ''DELETE'' (Status NO_CONTENT))"
  obtain lres cevs where loop: "?loop (h @ ?g) = (lres, cevs)"
    by (cases "?loop (h @ ?g)")
  show thesis
  proof (cases lres)
    case (Inl e)
    with loop assms show ?thesis
      by (simp add: deleteCalendar_def andThen_Inl[where m="?loop" and h="h @ ?g"])
  next
    case (Inr errors)
    with loop have l: "?loop (h @ ?g) = (Inr errors, cevs)"
      by simp
    obtain fres fevs where f:
      "deleteCalendar_finish env self delresource deluri parent errors (h @ ?g @ cevs) = (fres, fevs)"
      by (cases "deleteCalendar_finish env self delresource deluri parent errors (h @ ?g @ cevs)")
    from assms f have "fres = Inr resp" "evs = ?g @ cevs @ fevs"
      by (simp_all add: deleteCalendar_def andThen_Inr[where m="?loop" and h="h @ ?g", OF l])
    with l f show ?thesis
      by (intro that[of ?g errors cevs fevs]) simp_all
  qed
qed

text \<open>
  The shape of every run of the statements after the loop, also of one that
  raises: once the collection's own token has been bumped, the delete of the
  collection follows at once, and only the clean-up can come after it.
\<close>

lemma deleteCalendar_finish_shape:
  assumes "deleteCalendar_finish env self delresource deluri parent errors H = (res, evs)"
  shows "(\<exists>f. evs = [IsShared delresource (Inl f)])
       \<or> (\<exists>f. evs = [IsShared delresource (Inr True), DowngradeFromShare delresource (Inl f)])
       \<or> (\<exists>b f. evs = IsShared delresource (Inr b)
                 # (if b then [DowngradeFromShare delresource (Inr ())] else [])
                 @ [BumpSyncToken delresource (Inl f)])
       \<or> (\<exists>b rev'.
            isShared env H delresource = Inr b
          \<and> bumpSyncToken env
              (H @ IsShared delresource (Inr b)
                 # (if b then [DowngradeFromShare delresource (Inr ())] else [])) delresource = Inr rev'
          \<and> (\<exists>post.
                evs = (IsShared delresource (Inr b)
                       # (if b then [DowngradeFromShare delresource (Inr ())] else []))
                      @ BumpSyncToken delresource (Inr rev')
                      # snd (deleteResource env self delresource deluri parent
                               (H @ (IsShared delresource (Inr b)
                                     # (if b then [DowngradeFromShare delresource (Inr ())] else []))
                                  @ [BumpSyncToken delresource (Inr rev')]))
                      @ post
              \<and> (post = [] \<or> (\<exists>x. post = [DeletedCalendar delresource x]))))"
proof (cases "isShared env H delresource")
  case (Inl f)
  with assms have "evs = [IsShared delresource (Inl f)]"
    by (auto simp add: deleteCalendar_finish_def)
  then show ?thesis
    by blast
next
  case (Inr b)
  let ?sh = "IsShared delresource (Inr b) # (if b then [DowngradeFromShare delresource (Inr ())] else [])"
  show ?thesis
  proof (cases "b \<and> (\<exists>f. downgradeFromShare env (H @ [IsShared delresource (Inr True)]) delresource = Inl f)")
    case True
    with assms Inr show ?thesis
      by (auto simp add: deleteCalendar_finish_def)
  next
    case False
    show ?thesis
    proof (cases "bumpSyncToken env (H @ ?sh) delresource")
      case (Inl f)
      with assms Inr False have "evs = ?sh @ [BumpSyncToken delresource (Inl f)]"
        by (cases b; cases "downgradeFromShare env (H @ [IsShared delresource (Inr True)]) delresource")
           (auto simp add: deleteCalendar_finish_def)
      then have "\<exists>b f. evs = IsShared delresource (Inr b)
                 # (if b then [DowngradeFromShare delresource (Inr ())] else [])
                 @ [BumpSyncToken delresource (Inl f)]"
        by (intro exI[of _ b] exI[of _ f]) simp
      then show ?thesis
        by blast
    next
      case bump: (Inr rev')
      let ?H2 = "H @ ?sh @ [BumpSyncToken delresource (Inr rev')]"
      let ?d = "deleteResource env self delresource deluri parent ?H2"
      from assms Inr False bump
      have "\<exists>post. evs = ?sh @ BumpSyncToken delresource (Inr rev') # snd ?d @ post
              \<and> (post = [] \<or> (\<exists>x. post = [DeletedCalendar delresource x]))"
        by (cases b; cases "downgradeFromShare env (H @ [IsShared delresource (Inr True)]) delresource";
            cases "fst ?d")
           (auto simp add: deleteCalendar_finish_def andThen_deleteResource call_apply Let_def
              split: sum.splits if_splits)
      with Inr bump show ?thesis
        by blast
    qed
  qed
qed

lemma deleteCalendar_finish_bumped:
  assumes "BumpSyncToken delresource (Inr revision)
             \<in> set (snd (deleteCalendar_finish env self delresource deluri parent errors H))"
  shows "\<exists>pre rev' post.
           snd (deleteCalendar_finish env self delresource deluri parent errors H) =
             pre @ BumpSyncToken delresource (Inr rev')
                 # snd (deleteResource env self delresource deluri parent
                          (H @ pre @ [BumpSyncToken delresource (Inr rev')])) @ post
         \<and> (post = [] \<or> (\<exists>x. post = [DeletedCalendar delresource x]))"
proof -
  obtain res evs where run:
    "deleteCalendar_finish env self delresource deluri parent errors H = (res, evs)"
    by (cases "deleteCalendar_finish env self delresource deluri parent errors H")
  from assms run have mem: "BumpSyncToken delresource (Inr revision) \<in> set evs"
    by simp
  from deleteCalendar_finish_shape[OF run] mem
  obtain b rev' post where
    e: "evs = (IsShared delresource (Inr b)
               # (if b then [DowngradeFromShare delresource (Inr ())] else []))
              @ BumpSyncToken delresource (Inr rev')
              # snd (deleteResource env self delresource deluri parent
                       (H @ (IsShared delresource (Inr b)
                             # (if b then [DowngradeFromShare delresource (Inr ())] else []))
                          @ [BumpSyncToken delresource (Inr rev')]))
              @ post"
    and p: "post = [] \<or> (\<exists>x. post = [DeletedCalendar delresource x])"
    by (elim disjE exE conjE) (auto split: if_splits)
  show ?thesis
    using run e p
    by (intro exI[of _ "IsShared delresource (Inr b)
               # (if b then [DowngradeFromShare delresource (Inr ())] else [])"]
          exI[of _ rev'] exI[of _ post]) simp
qed

subsection \<open>Failures of the children\<close>

text \<open>
  Claim C4, as the code has it. A child whose delete raises never ends the
  loop: the loop raises only when \<open>locateChildResource\<close> does. When
  \<open>deleteCalendar\<close> passes its guards and returns, every child was visited, and
  the error map of the outcome holds one \<open>BAD_REQUEST\<close> entry per failed child,
  keyed by its URI, merged with the entries of the multi-status answer of the
  collection's own delete, if it gave one. So with a plain status from the
  collection's own delete, \<open>K\<close> failed children out of \<open>N\<close> give a
  \<open>MultiStatusResponse\<close> with exactly \<open>K\<close> entries, and \<open>NO_CONTENT\<close> when \<open>K = 0\<close>.
\<close>

theorem deleteCalendar_child_errors:
  "(fst (deleteCalendar_children env self delresource deluri ns q h0) = Inl e \<longrightarrow>
      (\<exists>n f. LocateChildResource delresource n (Inl f)
                \<in> set (snd (deleteCalendar_children env self delresource deluri ns q h0))
             \<and> e = f))
   \<and> (isDefaultCalendar env h delresource = Inr False
      \<and> self_depth self = ''infinity''
      \<and> isVirtualShare env (h @ [IsDefaultCalendar delresource (Inr False)]) delresource = Inr False
      \<and> listChildren env
           (h @ [IsDefaultCalendar delresource (Inr False), IsVirtualShare delresource (Inr False)])
           delresource = Inr names
      \<and> distinct (map (joinURL env deluri) names)
      \<and> fst (deleteCalendar env self delresource deluri parent h) = Inr resp
      \<and> failed = failed_children env self delresource deluri names
             (h @ [IsDefaultCalendar delresource (Inr False), IsVirtualShare delresource (Inr False),
                   ListChildren delresource (Inr names)])
    \<longrightarrow> (\<forall>n \<in> set names. \<exists>child. LocateChildResource delresource n (Inr child)
                 \<in> set (snd (deleteCalendar env self delresource deluri parent h)))
        \<and> (\<exists>own. Delete deluri delresource (self_depth self) (Inr own)
                     \<in> set (snd (deleteCalendar env self delresource deluri parent h))
              \<and> resp = ResponseQueue_response
                         (merge_errors
                            \<lparr>path_basename = deluri, method_name = ''DELETE'',
                             success_response = Status NO_CONTENT,
                             responses = map (\<lambda>u. (u, BAD_REQUEST)) failed\<rparr> own)
              \<and> ((\<forall>c. own \<noteq> MultiStatusResponse c) \<longrightarrow>
                   resp = (if failed = [] then Status NO_CONTENT
                           else MultiStatusResponse (map (\<lambda>u. (u, BAD_REQUEST)) failed)))))"
proof (intro conjI impI)
  assume "fst (deleteCalendar_children env self delresource deluri ns q h0) = Inl e"
  then show "\<exists>n f. LocateChildResource delresource n (Inl f)
                \<in> set (snd (deleteCalendar_children env self delresource deluri ns q h0))
             \<and> e = f"
    using children_loop[of env self delresource deluri ns q h0
        "fst (deleteCalendar_children env self delresource deluri ns q h0)"
        "snd (deleteCalendar_children env self delresource deluri ns q h0)"]
    by (simp add: prod_eq_iff)
next
  let ?g = "[IsDefaultCalendar delresource (Inr False), IsVirtualShare delresource (Inr False),
             ListChildren delresource (Inr names)]"
  let ?q0 = "new_ResponseQueue deluri ''DELETE'' (Status NO_CONTENT)"
  assume a: "isDefaultCalendar env h delresource = Inr False
      \<and> self_depth self = ''infinity''
      \<and> isVirtualShare env (h @ [IsDefaultCalendar delresource (Inr False)]) delresource = Inr False
      \<and> listChildren env
           (h @ [IsDefaultCalendar delresource (Inr False), IsVirtualShare delresource (Inr False)])
           delresource = Inr names
      \<and> distinct (map (joinURL env deluri) names)
      \<and> fst (deleteCalendar env self delresource deluri parent h) = Inr resp
      \<and> failed = failed_children env self delresource deluri names (h @ ?g)"
  obtain evs where run: "deleteCalendar env self delresource deluri parent h = (Inr resp, evs)"
    using a by (cases "deleteCalendar env self delresource deluri parent h") simp
  from a have g1: "isDefaultCalendar env h delresource = Inr False"
    and g2: "self_depth self = ''infinity''"
    and g3: "isVirtualShare env (h @ [IsDefaultCalendar delresource (Inr False)]) delresource = Inr False"
    and ls: "listChildren env
           (h @ [IsDefaultCalendar delresource (Inr False), IsVirtualShare delresource (Inr False)])
           delresource = Inr names"
    by simp_all
  obtain errors gevs cevs fevs where
    g: "gevs = ?g"
    and loop: "deleteCalendar_children env self delresource deluri names ?q0 (h @ gevs) = (Inr errors, cevs)"
    and fin: "deleteCalendar_finish env self delresource deluri parent errors (h @ gevs @ cevs)
                = (Inr resp, fevs)"
    and evs: "evs = gevs @ cevs @ fevs"
    by (rule deleteCalendar_run[OF g1 g2 g3 ls run]) blast
  from children_loop[OF loop] g a
  have errors: "errors = fold (\<lambda>u q. ResponseQueue_add q u BAD_REQUEST) failed ?q0"
    and visited: "\<forall>n \<in> set names. \<exists>child. LocateChildResource delresource n (Inr child) \<in> set cevs"
    by simp_all
  have "distinct failed"
    using a failed_children_distinct by blast
  then have q: "errors = \<lparr>path_basename = deluri, method_name = ''DELETE'',
                         success_response = Status NO_CONTENT,
                         responses = map (\<lambda>u. (u, BAD_REQUEST)) failed\<rparr>"
    using errors by (simp add: fold_ResponseQueue_add new_ResponseQueue_def)
  from deleteCalendar_after_children[OF fin]
  obtain pre own where
    own: "fst (deleteResource env self delresource deluri parent (h @ pre)) = Inr own"
    and resp: "resp = ResponseQueue_response (merge_errors errors own)"
    and sub: "set (snd (deleteResource env self delresource deluri parent (h @ pre))) \<subseteq> set fevs"
  proof -
    from deleteCalendar_after_children[OF fin] obtain b rev own where
      o: "fst (deleteResource env self delresource deluri parent
             ((h @ gevs @ cevs) @ (IsShared delresource (Inr b)
                   # (if b then [DowngradeFromShare delresource (Inr ())] else []))
                @ [BumpSyncToken delresource (Inr rev)])) = Inr own"
      and r: "resp = ResponseQueue_response (merge_errors errors own)"
      and e: "fevs = (IsShared delresource (Inr b)
             # (if b then [DowngradeFromShare delresource (Inr ())] else []))
            @ BumpSyncToken delresource (Inr rev)
            # snd (deleteResource env self delresource deluri parent
                     ((h @ gevs @ cevs) @ (IsShared delresource (Inr b)
                           # (if b then [DowngradeFromShare delresource (Inr ())] else []))
                        @ [BumpSyncToken delresource (Inr rev)]))
            @ (if resp = Status NO_CONTENT then [DeletedCalendar delresource (Inr ())] else [])"
      by blast
    let ?pre = "gevs @ cevs @ (IsShared delresource (Inr b)
                   # (if b then [DowngradeFromShare delresource (Inr ())] else []))
                @ [BumpSyncToken delresource (Inr rev)]"
    show thesis
    proof (rule that[of ?pre own])
      show "fst (deleteResource env self delresource deluri parent (h @ ?pre)) = Inr own"
        using o by simp
      show "resp = ResponseQueue_response (merge_errors errors own)"
        by (rule r)
      show "set (snd (deleteResource env self delresource deluri parent (h @ ?pre))) \<subseteq> set fevs"
        using e by auto
    qed
  qed
  have own': "deleteResource env self delresource deluri parent (h @ pre)
               = (Inr own, snd (deleteResource env self delresource deluri parent (h @ pre)))"
    using own by (simp add: prod_eq_iff)
  have del: "Delete deluri delresource (self_depth self) (Inr own) \<in> set evs"
    using deleteResource_result[OF own'] sub evs by auto
  show "\<forall>n \<in> set names. \<exists>child. LocateChildResource delresource n (Inr child)
                 \<in> set (snd (deleteCalendar env self delresource deluri parent h))"
    using visited run evs by auto
  have plain: "resp = (if failed = [] then Status NO_CONTENT
                           else MultiStatusResponse (map (\<lambda>u. (u, BAD_REQUEST)) failed))"
    if "\<forall>c. own \<noteq> MultiStatusResponse c"
    using that resp q by (cases own) (simp_all add: merge_errors_def ResponseQueue_response_def)
  show "\<exists>own. Delete deluri delresource (self_depth self) (Inr own)
                     \<in> set (snd (deleteCalendar env self delresource deluri parent h))
              \<and> resp = ResponseQueue_response
                         (merge_errors
                            \<lparr>path_basename = deluri, method_name = ''DELETE'',
                             success_response = Status NO_CONTENT,
                             responses = map (\<lambda>u. (u, BAD_REQUEST)) failed\<rparr> own)
              \<and> ((\<forall>c. own \<noteq> MultiStatusResponse c) \<longrightarrow>
                   resp = (if failed = [] then Status NO_CONTENT
                           else MultiStatusResponse (map (\<lambda>u. (u, BAD_REQUEST)) failed)))"
    using del resp q plain run by (intro exI[of _ own]) simp
qed

theorem deleteCalendar_child_errors_witness:
  "isDefaultCalendar
     (ex_env\<lparr>listChildren := (\<lambda>h r. Inr [''a.ics'', ''b.ics'', ''c.ics'']),
             fileop_delete := (\<lambda>h u r d.
               if u = ''/calendars/user/home/b.ics''
               then Inl (OtherError ''permission denied'') else Inr (Status NO_CONTENT))\<rparr>)
     [] ex_home = Inr False
   \<and> self_depth ex_delete_home = ''infinity''
   \<and> isVirtualShare
       (ex_env\<lparr>listChildren := (\<lambda>h r. Inr [''a.ics'', ''b.ics'', ''c.ics'']),
               fileop_delete := (\<lambda>h u r d.
                 if u = ''/calendars/user/home/b.ics''
                 then Inl (OtherError ''permission denied'') else Inr (Status NO_CONTENT))\<rparr>)
       [IsDefaultCalendar ex_home (Inr False)] ex_home = Inr False
   \<and> listChildren
       (ex_env\<lparr>listChildren := (\<lambda>h r. Inr [''a.ics'', ''b.ics'', ''c.ics'']),
               fileop_delete := (\<lambda>h u r d.
                 if u = ''/calendars/user/home/b.ics''
                 then Inl (OtherError ''permission denied'') else Inr (Status NO_CONTENT))\<rparr>)
       [IsDefaultCalendar ex_home (Inr False), IsVirtualShare ex_home (Inr False)] ex_home
       = Inr [''a.ics'', ''b.ics'', ''c.ics'']
   \<and> distinct (map (joinURL ex_env ''/calendars/user/home'') [''a.ics'', ''b.ics'', ''c.ics''])
   \<and> failed_children
       (ex_env\<lparr>listChildren := (\<lambda>h r. Inr [''a.ics'', ''b.ics'', ''c.ics'']),
               fileop_delete := (\<lambda>h u r d.
                 if u = ''/calendars/user/home/b.ics''
                 then Inl (OtherError ''permission denied'') else Inr (Status NO_CONTENT))\<rparr>)
       ex_delete_home ex_home ''/calendars/user/home'' [''a.ics'', ''b.ics'', ''c.ics'']
       [IsDefaultCalendar ex_home (Inr False), IsVirtualShare ex_home (Inr False),
        ListChildren ex_home (Inr [''a.ics'', ''b.ics'', ''c.ics''])]
       = [''/calendars/user/home/b.ics'']
   \<and> fst (deleteCalendar
       (ex_env\<lparr>listChildren := (\<lambda>h r. Inr [''a.ics'', ''b.ics'', ''c.ics'']),
               fileop_delete := (\<lambda>h u r d.
                 if u = ''/calendars/user/home/b.ics''
                 then Inl (OtherError ''permission denied'') else Inr (Status NO_CONTENT))\<rparr>)
       ex_delete_home ex_home ''/calendars/user/home'' ex_user [])
       = Inr (MultiStatusResponse [(''/calendars/user/home/b.ics'', BAD_REQUEST)])"
  using deleteCalendar_child_errors
    [of "ex_env\<lparr>listChildren := (\<lambda>h r. Inr [''a.ics'', ''b.ics'', ''c.ics'']),
               fileop_delete := (\<lambda>h u r d.
                 if u = ''/calendars/user/home/b.ics''
                 then Inl (OtherError ''permission denied'') else Inr (Status NO_CONTENT))\<rparr>"
        ex_delete_home ex_home "''/calendars/user/home''" "[]"
        "new_ResponseQueue ''/calendars/user/home'' ''DELETE'' (Status NO_CONTENT)" "[]"
        UnboundLocalError "[]" "[''a.ics'', ''b.ics'', ''c.ics'']" ex_user
        "MultiStatusResponse [(''/calendars/user/home/b.ics'', BAD_REQUEST)]"
        "[''/calendars/user/home/b.ics'']"]
  by (simp add: eval_simps ex_env_def ex_delete_home_def)

text \<open>
  The claim as the spec words it counts only the children. In the run below the
  one child is deleted without failure, so \<open>K = 0\<close>, and the collection's own
  delete answers with a multi-status of one entry: the outcome is that
  multi-status, not \<open>NO_CONTENT\<close>.
\<close>

theorem collection_delete_adds_entries_counterexample:
  "failed_children
     (ex_env\<lparr>listChildren := (\<lambda>h r. Inr [''event1.ics'']),
             fileop_delete := (\<lambda>h u r d.
               if u = ''/calendars/user/home''
               then Inr (MultiStatusResponse [(''/calendars/user/home/.db.sqlite'', FORBIDDEN)])
               else Inr (Status NO_CONTENT))\<rparr>)
     ex_delete_home ex_home ''/calendars/user/home'' [''event1.ics'']
     [IsDefaultCalendar ex_home (Inr False), IsVirtualShare ex_home (Inr False),
      ListChildren ex_home (Inr [''event1.ics''])] = []
   \<and> fst (deleteCalendar
        (ex_env\<lparr>listChildren := (\<lambda>h r. Inr [''event1.ics'']),
                fileop_delete := (\<lambda>h u r d.
                  if u = ''/calendars/user/home''
                  then Inr (MultiStatusResponse [(''/calendars/user/home/.db.sqlite'', FORBIDDEN)])
                  else Inr (Status NO_CONTENT))\<rparr>)
        ex_delete_home ex_home ''/calendars/user/home'' ex_user []) =
       Inr (MultiStatusResponse [(''/calendars/user/home/.db.sqlite'', FORBIDDEN)])"
  by (simp add: eval_simps ex_env_def ex_delete_home_def)

subsection \<open>The sync token\<close>

lemma body_bumps:
  assumes "deleteCalendarResource_body env self delresource deluri parent
             myquota old_size scheduler lock h = (res, evs)"
  shows body_bump_once:
      "res = Inr (Status NO_CONTENT) \<Longrightarrow>
         \<exists>revision. filter (\<lambda>ev. \<exists>c z. ev = BumpSyncToken c z) evs
                      = [BumpSyncToken parent (Inr revision)]"
    and body_bump:
      "BumpSyncToken c y \<in> set evs \<Longrightarrow>
         c = parent
         \<and> (\<exists>pre post. evs = pre @ Delete deluri delresource (self_depth self) (Inr (Status NO_CONTENT))
                                  # post
               \<and> BumpSyncToken parent y \<in> set post
               \<and> (\<forall>c z. BumpSyncToken c z \<notin> set pre))"
  using assms[symmetric]
  by (auto simp add: deleteCalendarResource_body_def call_apply Cons_eq_append_conv
      split: sum.splits if_splits option.splits)

lemma deleteResource_bumps:
  assumes "deleteResource env self delresource deluri parent h = (res, evs)"
  shows deleteResource_bump_once:
      "res = Inr (Status NO_CONTENT) \<Longrightarrow> isPseudoCalendarCollection parent \<Longrightarrow>
         \<exists>revision. filter (\<lambda>ev. \<exists>c z. ev = BumpSyncToken c z) evs
                      = [BumpSyncToken parent (Inr revision)]"
    and deleteResource_no_bump:
      "Delete deluri delresource (self_depth self) a \<in> set evs \<Longrightarrow> a \<noteq> Inr (Status NO_CONTENT) \<Longrightarrow>
         BumpSyncToken c z \<notin> set evs"
  using assms[symmetric]
  by (auto simp add: deleteResource_def call_apply
      split: sum.splits if_splits option.splits)


lemma deleteCalendarResource_bumps:
  assumes run: "deleteCalendarResource env self delresource deluri parent h = (res, evs)"
  shows deleteCalendarResource_bump_once:
      "res = Inr (Status NO_CONTENT) \<Longrightarrow>
         \<exists>revision. filter (\<lambda>ev. \<exists>c z. ev = BumpSyncToken c z) evs
                      = [BumpSyncToken parent (Inr revision)]"
    and deleteCalendarResource_bump:
      "BumpSyncToken c y \<in> set evs \<Longrightarrow>
         c = parent
         \<and> (\<exists>pre post. evs = pre @ Delete deluri delresource (self_depth self) (Inr (Status NO_CONTENT))
                                  # post
               \<and> BumpSyncToken parent y \<in> set post
               \<and> (\<forall>c z. BumpSyncToken c z \<notin> set pre))"
proof -
  show "\<exists>revision. filter (\<lambda>ev. \<exists>c z. ev = BumpSyncToken c z) evs
                      = [BumpSyncToken parent (Inr revision)]"
    if ok: "res = Inr (Status NO_CONTENT)"
    using run
  proof (cases rule: deleteCalendarResource_run)
    case (early e)
    with ok show ?thesis
      by simp
  next
    case (tried myquota old_size scheduler lock qevs sevs bres bevs cevs)
    from tried(6) ok have bres: "bres = Inr (Status NO_CONTENT)"
      by (auto split: option.splits sum.splits if_splits)
    have q: "filter (\<lambda>ev. \<exists>c z. ev = BumpSyncToken c z) qevs = []"
      using tried(1) by auto
    have s: "filter (\<lambda>ev. \<exists>c z. ev = BumpSyncToken c z) sevs = []"
      unfolding filter_empty_conv
      using setup_events[OF tried(2)] by fastforce
    have c: "filter (\<lambda>ev. \<exists>c z. ev = BumpSyncToken c z) cevs = []"
      using tried(4) by (auto split: option.splits)
    from body_bump_once[OF tried(3) bres] q s c tried(5) show ?thesis
      by simp
  qed
  show "c = parent
         \<and> (\<exists>pre post. evs = pre @ Delete deluri delresource (self_depth self) (Inr (Status NO_CONTENT))
                                  # post
               \<and> BumpSyncToken parent y \<in> set post
               \<and> (\<forall>c z. BumpSyncToken c z \<notin> set pre))"
    if mem: "BumpSyncToken c y \<in> set evs"
    using run
  proof (cases rule: deleteCalendarResource_run)
    case (early e)
    from early(2)[OF mem] show ?thesis
      by auto
  next
    case (tried myquota old_size scheduler lock qevs sevs bres bevs cevs)
    have q: "\<And>c z. BumpSyncToken c z \<notin> set qevs"
      using tried(1) by auto
    have s: "\<And>c z. BumpSyncToken c z \<notin> set sevs"
      using setup_events[OF tried(2)] by fastforce
    have "BumpSyncToken c y \<notin> set cevs"
      using tried(4) by (auto split: option.splits)
    with q s mem tried(5) have b: "BumpSyncToken c y \<in> set bevs"
      by auto
    from body_bump[OF tried(3) b] obtain bpre bpost where
      c: "c = parent"
      and e: "bevs = bpre @ Delete deluri delresource (self_depth self) (Inr (Status NO_CONTENT)) # bpost"
      and p: "BumpSyncToken parent y \<in> set bpost"
      and n: "\<forall>c z. BumpSyncToken c z \<notin> set bpre"
      by blast
    have "evs = (qevs @ sevs @ bpre)
                @ Delete deluri delresource (self_depth self) (Inr (Status NO_CONTENT)) # (bpost @ cevs)"
      using tried(5) e by simp
    moreover have "BumpSyncToken parent y \<in> set (bpost @ cevs)"
      using p by simp
    moreover have "\<forall>c z. BumpSyncToken c z \<notin> set (qevs @ sevs @ bpre)"
      using q s n by simp
    ultimately show ?thesis
      using c by blast
  qed
qed

lemma deleteCalendar_finish_bump_once:
  assumes fin: "deleteCalendar_finish env self delresource deluri parent errors H = (Inr resp, evs)"
    and other: "parent \<noteq> delresource"
  shows "\<exists>revision. filter (\<lambda>ev. \<exists>z. ev = BumpSyncToken delresource z) evs
                      = [BumpSyncToken delresource (Inr revision)]"
proof -
  from deleteCalendar_after_children[OF fin] obtain b revision where
    e: "evs = (IsShared delresource (Inr b)
             # (if b then [DowngradeFromShare delresource (Inr ())] else []))
            @ BumpSyncToken delresource (Inr revision)
            # snd (deleteResource env self delresource deluri parent
                     (H @ (IsShared delresource (Inr b)
                           # (if b then [DowngradeFromShare delresource (Inr ())] else []))
                        @ [BumpSyncToken delresource (Inr revision)]))
            @ (if resp = Status NO_CONTENT then [DeletedCalendar delresource (Inr ())] else [])"
    by blast
  let ?H2 = "H @ (IsShared delresource (Inr b)
                           # (if b then [DowngradeFromShare delresource (Inr ())] else []))
                        @ [BumpSyncToken delresource (Inr revision)]"
  obtain dres devs where d: "deleteResource env self delresource deluri parent ?H2 = (dres, devs)"
    by (cases "deleteResource env self delresource deluri parent ?H2")
  have "filter (\<lambda>ev. \<exists>z. ev = BumpSyncToken delresource z) devs = []"
    unfolding filter_empty_conv
    using deleteResource_bump[OF d] other by blast
  with e d have "filter (\<lambda>ev. \<exists>z. ev = BumpSyncToken delresource z) evs
                      = [BumpSyncToken delresource (Inr revision)]"
    by simp
  then show ?thesis
    by blast
qed

text \<open>
  Claim C2, as the code has it. In \<open>deleteResource\<close> the parent's \<open>bumpSyncToken\<close>
  is called only after the underlying delete has returned \<open>NO_CONTENT\<close>, only on a
  pseudo calendar collection, and once. In \<open>deleteCalendar\<close> the collection's own
  \<open>bumpSyncToken\<close> (the \<open>Change CTag\<close> step) is the call right before the delete of
  the collection itself, whatever that delete then does: return \<open>NO_CONTENT\<close>,
  return a multi-status, or raise.

  The token does move on success. When \<open>deleteResource\<close> returns \<open>NO_CONTENT\<close> under
  a pseudo calendar collection, and when \<open>deleteCalendarResource\<close> returns
  \<open>NO_CONTENT\<close>, the run holds exactly one \<open>bumpSyncToken\<close> call: it is on the parent
  and it returned. When the underlying delete raised or returned another status,
  \<open>deleteResource\<close> bumps nothing. In \<open>deleteCalendarResource\<close> too a bump is on the
  parent and follows a delete that returned \<open>NO_CONTENT\<close>. When the statements of
  \<open>deleteCalendar\<close> after the loop return, they have bumped the collection's own
  token exactly once.
\<close>

theorem sync_token_bumps:
  "(BumpSyncToken c y \<in> set (snd (deleteResource env self delresource deluri parent h)) \<longrightarrow>
      c = parent \<and> isPseudoCalendarCollection parent
      \<and> (\<exists>pre post.
            snd (deleteResource env self delresource deluri parent h) =
              pre @ Delete deluri delresource (self_depth self) (Inr (Status NO_CONTENT)) # post
            \<and> BumpSyncToken parent y \<in> set post
            \<and> (\<forall>z. BumpSyncToken parent z \<notin> set pre)
            \<and> length (filter (\<lambda>ev. \<exists>z. ev = BumpSyncToken parent z) post) = 1))
   \<and> (isDefaultCalendar env h delresource = Inr False
      \<and> self_depth self = ''infinity''
      \<and> isVirtualShare env (h @ [IsDefaultCalendar delresource (Inr False)]) delresource = Inr False
      \<and> listChildren env
           (h @ [IsDefaultCalendar delresource (Inr False), IsVirtualShare delresource (Inr False)])
           delresource = Inr names
      \<and> fst (deleteCalendar env self delresource deluri parent h) = Inr resp
    \<longrightarrow> (\<exists>pre rev own post.
           snd (deleteCalendar env self delresource deluri parent h) =
             pre @ BumpSyncToken delresource (Inr rev)
                 # snd (deleteResource env self delresource deluri parent
                          (h @ pre @ [BumpSyncToken delresource (Inr rev)])) @ post
         \<and> fst (deleteResource env self delresource deluri parent
                  (h @ pre @ [BumpSyncToken delresource (Inr rev)])) = Inr own
         \<and> (post = [] \<or> post = [DeletedCalendar delresource (Inr ())])))
   \<and> (BumpSyncToken delresource (Inr revision)
        \<in> set (snd (deleteCalendar_finish env self delresource deluri parent errors h))
    \<longrightarrow> (\<exists>pre rev post.
           snd (deleteCalendar_finish env self delresource deluri parent errors h) =
             pre @ BumpSyncToken delresource (Inr rev)
                 # snd (deleteResource env self delresource deluri parent
                          (h @ pre @ [BumpSyncToken delresource (Inr rev)])) @ post
         \<and> (post = [] \<or> (\<exists>x. post = [DeletedCalendar delresource x]))))
   \<and> (fst (deleteResource env self delresource deluri parent h) = Inr (Status NO_CONTENT)
      \<and> isPseudoCalendarCollection parent
    \<longrightarrow> (\<exists>rev. filter (\<lambda>ev. \<exists>c z. ev = BumpSyncToken c z)
                  (snd (deleteResource env self delresource deluri parent h))
                = [BumpSyncToken parent (Inr rev)]))
   \<and> (Delete deluri delresource (self_depth self) a
        \<in> set (snd (deleteResource env self delresource deluri parent h))
      \<and> a \<noteq> Inr (Status NO_CONTENT)
    \<longrightarrow> BumpSyncToken c y \<notin> set (snd (deleteResource env self delresource deluri parent h)))
   \<and> (fst (deleteCalendarResource env self delresource deluri parent h) = Inr (Status NO_CONTENT)
    \<longrightarrow> (\<exists>rev. filter (\<lambda>ev. \<exists>c z. ev = BumpSyncToken c z)
                  (snd (deleteCalendarResource env self delresource deluri parent h))
                = [BumpSyncToken parent (Inr rev)]))
   \<and> (BumpSyncToken c y \<in> set (snd (deleteCalendarResource env self delresource deluri parent h))
    \<longrightarrow> c = parent
        \<and> (\<exists>pre post.
              snd (deleteCalendarResource env self delresource deluri parent h) =
                pre @ Delete deluri delresource (self_depth self) (Inr (Status NO_CONTENT)) # post
            \<and> BumpSyncToken parent y \<in> set post
            \<and> (\<forall>c z. BumpSyncToken c z \<notin> set pre)))
   \<and> (parent \<noteq> delresource
      \<and> fst (deleteCalendar_finish env self delresource deluri parent errors h) = Inr own_response
    \<longrightarrow> (\<exists>rev. filter (\<lambda>ev. \<exists>z. ev = BumpSyncToken delresource z)
                  (snd (deleteCalendar_finish env self delresource deluri parent errors h))
                = [BumpSyncToken delresource (Inr rev)]))"
proof (intro conjI impI)
  assume b: "BumpSyncToken c y \<in> set (snd (deleteResource env self delresource deluri parent h))"
  obtain res evs where run: "deleteResource env self delresource deluri parent h = (res, evs)"
    by (cases "deleteResource env self delresource deluri parent h")
  from b run have "BumpSyncToken c y \<in> set evs"
    by simp
  from deleteResource_bump[OF run this] run
  show "c = parent" "isPseudoCalendarCollection parent"
    "\<exists>pre post.
            snd (deleteResource env self delresource deluri parent h) =
              pre @ Delete deluri delresource (self_depth self) (Inr (Status NO_CONTENT)) # post
            \<and> BumpSyncToken parent y \<in> set post
            \<and> (\<forall>z. BumpSyncToken parent z \<notin> set pre)
            \<and> length (filter (\<lambda>ev. \<exists>z. ev = BumpSyncToken parent z) post) = 1"
    by simp_all
next
  assume a: "isDefaultCalendar env h delresource = Inr False
      \<and> self_depth self = ''infinity''
      \<and> isVirtualShare env (h @ [IsDefaultCalendar delresource (Inr False)]) delresource = Inr False
      \<and> listChildren env
           (h @ [IsDefaultCalendar delresource (Inr False), IsVirtualShare delresource (Inr False)])
           delresource = Inr names
      \<and> fst (deleteCalendar env self delresource deluri parent h) = Inr resp"
  obtain evs where run: "deleteCalendar env self delresource deluri parent h = (Inr resp, evs)"
    using a by (cases "deleteCalendar env self delresource deluri parent h") simp
  from a have g1: "isDefaultCalendar env h delresource = Inr False"
    and g2: "self_depth self = ''infinity''"
    and g3: "isVirtualShare env (h @ [IsDefaultCalendar delresource (Inr False)]) delresource = Inr False"
    and ls: "listChildren env
           (h @ [IsDefaultCalendar delresource (Inr False), IsVirtualShare delresource (Inr False)])
           delresource = Inr names"
    by simp_all
  obtain errors gevs cevs fevs where
    fin: "deleteCalendar_finish env self delresource deluri parent errors (h @ gevs @ cevs)
                = (Inr resp, fevs)"
    and evs: "evs = gevs @ cevs @ fevs"
    by (rule deleteCalendar_run[OF g1 g2 g3 ls run]) blast
  from deleteCalendar_after_children[OF fin] obtain b rev own where
    o: "fst (deleteResource env self delresource deluri parent
           ((h @ gevs @ cevs) @ (IsShared delresource (Inr b)
                 # (if b then [DowngradeFromShare delresource (Inr ())] else []))
              @ [BumpSyncToken delresource (Inr rev)])) = Inr own"
    and e: "fevs = (IsShared delresource (Inr b)
           # (if b then [DowngradeFromShare delresource (Inr ())] else []))
          @ BumpSyncToken delresource (Inr rev)
          # snd (deleteResource env self delresource deluri parent
                   ((h @ gevs @ cevs) @ (IsShared delresource (Inr b)
                         # (if b then [DowngradeFromShare delresource (Inr ())] else []))
                      @ [BumpSyncToken delresource (Inr rev)]))
          @ (if resp = Status NO_CONTENT then [DeletedCalendar delresource (Inr ())] else [])"
    by blast
  let ?pre = "gevs @ cevs @ (IsShared delresource (Inr b)
                 # (if b then [DowngradeFromShare delresource (Inr ())] else []))"
  let ?post = "if resp = Status NO_CONTENT then [DeletedCalendar delresource (Inr ())] else []"
  have "snd (deleteCalendar env self delresource deluri parent h) =
             ?pre @ BumpSyncToken delresource (Inr rev)
                 # snd (deleteResource env self delresource deluri parent
                          (h @ ?pre @ [BumpSyncToken delresource (Inr rev)])) @ ?post"
    using run evs e by simp
  moreover have "fst (deleteResource env self delresource deluri parent
                  (h @ ?pre @ [BumpSyncToken delresource (Inr rev)])) = Inr own"
    using o by simp
  moreover have "?post = [] \<or> ?post = [DeletedCalendar delresource (Inr ())]"
    by simp
  ultimately show "\<exists>pre rev own post.
           snd (deleteCalendar env self delresource deluri parent h) =
             pre @ BumpSyncToken delresource (Inr rev)
                 # snd (deleteResource env self delresource deluri parent
                          (h @ pre @ [BumpSyncToken delresource (Inr rev)])) @ post
         \<and> fst (deleteResource env self delresource deluri parent
                  (h @ pre @ [BumpSyncToken delresource (Inr rev)])) = Inr own
         \<and> (post = [] \<or> post = [DeletedCalendar delresource (Inr ())])"
    by blast
next
  assume "BumpSyncToken delresource (Inr revision)
        \<in> set (snd (deleteCalendar_finish env self delresource deluri parent errors h))"
  then show "\<exists>pre rev post.
           snd (deleteCalendar_finish env self delresource deluri parent errors h) =
             pre @ BumpSyncToken delresource (Inr rev)
                 # snd (deleteResource env self delresource deluri parent
                          (h @ pre @ [BumpSyncToken delresource (Inr rev)])) @ post
         \<and> (post = [] \<or> (\<exists>x. post = [DeletedCalendar delresource x]))"
    by (rule deleteCalendar_finish_bumped)
next
  assume a: "fst (deleteResource env self delresource deluri parent h) = Inr (Status NO_CONTENT)
      \<and> isPseudoCalendarCollection parent"
  obtain evs where run:
    "deleteResource env self delresource deluri parent h = (Inr (Status NO_CONTENT), evs)"
    using a by (cases "deleteResource env self delresource deluri parent h") simp
  from deleteResource_bump_once[OF run refl] a run
  show "\<exists>rev. filter (\<lambda>ev. \<exists>c z. ev = BumpSyncToken c z)
                  (snd (deleteResource env self delresource deluri parent h))
                = [BumpSyncToken parent (Inr rev)]"
    by simp
next
  assume a: "Delete deluri delresource (self_depth self) a
        \<in> set (snd (deleteResource env self delresource deluri parent h))
      \<and> a \<noteq> Inr (Status NO_CONTENT)"
  obtain res evs where run: "deleteResource env self delresource deluri parent h = (res, evs)"
    by (cases "deleteResource env self delresource deluri parent h")
  from a run have "Delete deluri delresource (self_depth self) a \<in> set evs" "a \<noteq> Inr (Status NO_CONTENT)"
    by simp_all
  from deleteResource_no_bump[OF run this] run
  show "BumpSyncToken c y \<notin> set (snd (deleteResource env self delresource deluri parent h))"
    by simp
next
  assume a: "fst (deleteCalendarResource env self delresource deluri parent h) = Inr (Status NO_CONTENT)"
  obtain evs where run:
    "deleteCalendarResource env self delresource deluri parent h = (Inr (Status NO_CONTENT), evs)"
    using a by (cases "deleteCalendarResource env self delresource deluri parent h") simp
  from deleteCalendarResource_bump_once[OF run refl] run
  show "\<exists>rev. filter (\<lambda>ev. \<exists>c z. ev = BumpSyncToken c z)
                  (snd (deleteCalendarResource env self delresource deluri parent h))
                = [BumpSyncToken parent (Inr rev)]"
    by simp
next
  assume b: "BumpSyncToken c y \<in> set (snd (deleteCalendarResource env self delresource deluri parent h))"
  obtain res evs where run: "deleteCalendarResource env self delresource deluri parent h = (res, evs)"
    by (cases "deleteCalendarResource env self delresource deluri parent h")
  from b run have "BumpSyncToken c y \<in> set evs"
    by simp
  from deleteCalendarResource_bump[OF run this] run
  show "c = parent"
    "\<exists>pre post.
        snd (deleteCalendarResource env self delresource deluri parent h) =
          pre @ Delete deluri delresource (self_depth self) (Inr (Status NO_CONTENT)) # post
      \<and> BumpSyncToken parent y \<in> set post
      \<and> (\<forall>c z. BumpSyncToken c z \<notin> set pre)"
    by simp_all
next
  assume a: "parent \<noteq> delresource
      \<and> fst (deleteCalendar_finish env self delresource deluri parent errors h) = Inr own_response"
  obtain evs where run:
    "deleteCalendar_finish env self delresource deluri parent errors h = (Inr own_response, evs)"
    using a by (cases "deleteCalendar_finish env self delresource deluri parent errors h") simp
  from a have "parent \<noteq> delresource"
    by simp
  from deleteCalendar_finish_bump_once[OF run this] run
  show "\<exists>rev. filter (\<lambda>ev. \<exists>z. ev = BumpSyncToken delresource z)
                  (snd (deleteCalendar_finish env self delresource deluri parent errors h))
                = [BumpSyncToken delresource (Inr rev)]"
    by simp
qed

theorem sync_token_bumps_witness:
  "BumpSyncToken ex_home (Inr 8)
     \<in> set (snd (deleteResource ex_env ex_delete_event ex_event
                   ''/calendars/user/home/event1.ics'' ex_home []))
   \<and> isDefaultCalendar ex_env [] ex_home = Inr False
   \<and> self_depth ex_delete_home = ''infinity''
   \<and> isVirtualShare ex_env [IsDefaultCalendar ex_home (Inr False)] ex_home = Inr False
   \<and> listChildren ex_env
        [IsDefaultCalendar ex_home (Inr False), IsVirtualShare ex_home (Inr False)] ex_home = Inr []
   \<and> deleteCalendar ex_env ex_delete_home ex_home ''/calendars/user/home'' ex_user [] =
       (Inr (Status NO_CONTENT),
        [IsDefaultCalendar ex_home (Inr False), IsVirtualShare ex_home (Inr False),
         ListChildren ex_home (Inr []), IsShared ex_home (Inr False)]
        @ BumpSyncToken ex_home (Inr 8)
        # [Quota ex_home (Inr (Some 1000)), QuotaSize ex_home (Inr 120),
           Delete ''/calendars/user/home'' ex_home ''infinity'' (Inr (Status NO_CONTENT)),
           QuotaSizeAdjust ex_home (- 120) (Inr ())]
        @ [DeletedCalendar ex_home (Inr ())])
   \<and> isPseudoCalendarCollection ex_home
   \<and> deleteResource ex_env ex_delete_event ex_event
        ''/calendars/user/home/event1.ics'' ex_home [] =
       (Inr (Status NO_CONTENT),
        [Quota ex_event (Inr (Some 1000)), QuotaSize ex_event (Inr 120)]
        @ Delete ''/calendars/user/home/event1.ics'' ex_event ''0'' (Inr (Status NO_CONTENT))
        # [QuotaSizeAdjust ex_event (- 120) (Inr ()),
           BumpSyncToken ex_home (Inr 8),
           IndexDeleteResource ex_home ''event1.ics'' 8 (Inr ())])
   \<and> BumpSyncToken ex_home (Inr 8)
     \<in> set (snd (deleteCalendar_finish
                   (ex_env\<lparr>fileop_delete := (\<lambda>h u r d. Inl (OtherError ''permission denied''))\<rparr>)
                   ex_delete_home ex_home ''/calendars/user/home'' ex_user
                   (new_ResponseQueue ''/calendars/user/home'' ''DELETE'' (Status NO_CONTENT)) []))
   \<and> deleteCalendar_finish
        (ex_env\<lparr>fileop_delete := (\<lambda>h u r d. Inl (OtherError ''permission denied''))\<rparr>)
        ex_delete_home ex_home ''/calendars/user/home'' ex_user
        (new_ResponseQueue ''/calendars/user/home'' ''DELETE'' (Status NO_CONTENT)) [] =
       (Inl (OtherError ''permission denied''),
        [IsShared ex_home (Inr False)]
        @ BumpSyncToken ex_home (Inr 8)
        # [Quota ex_home (Inr (Some 1000)), QuotaSize ex_home (Inr 120),
           Delete ''/calendars/user/home'' ex_home ''infinity''
             (Inl (OtherError ''permission denied''))])
   \<and> filter (\<lambda>ev. \<exists>c z. ev = BumpSyncToken c z)
        (snd (deleteResource ex_env ex_delete_event ex_event
                ''/calendars/user/home/event1.ics'' ex_home []))
       = [BumpSyncToken ex_home (Inr 8)]
   \<and> deleteResource
        (ex_env\<lparr>fileop_delete := (\<lambda>h u r d. Inl (OtherError ''permission denied''))\<rparr>)
        ex_delete_home ex_home ''/calendars/user/home'' ex_user [] =
       (Inl (OtherError ''permission denied''),
        [Quota ex_home (Inr (Some 1000)), QuotaSize ex_home (Inr 120),
         Delete ''/calendars/user/home'' ex_home ''infinity''
           (Inl (OtherError ''permission denied''))])
   \<and> Inl (OtherError ''permission denied'') \<noteq> (Inr (Status NO_CONTENT) :: exc + response)
   \<and> deleteCalendarResource ex_env ex_delete_event ex_event
        ''/calendars/user/home/event1.ics'' ex_home [] =
       (Inr (Status NO_CONTENT),
        [Quota ex_event (Inr (Some 1000)), QuotaSize ex_event (Inr 120),
         ICalendarForUser ex_event (Inr \<lparr>resourceUID = ''uid-1''\<rparr>),
         TestImplicitSchedulingDELETE ex_event \<lparr>resourceUID = ''uid-1''\<rparr> (Inr False)]
        @ Delete ''/calendars/user/home/event1.ics'' ex_event ''0'' (Inr (Status NO_CONTENT))
        # [QuotaSizeAdjust ex_event (- 120) (Inr ()),
           BumpSyncToken ex_home (Inr 8),
           IndexDeleteResource ex_home ''event1.ics'' 8 (Inr ()),
           DoImplicitScheduling (Inr ())])
   \<and> filter (\<lambda>ev. \<exists>c z. ev = BumpSyncToken c z)
        (snd (deleteCalendarResource ex_env ex_delete_event ex_event
                ''/calendars/user/home/event1.ics'' ex_home []))
       = [BumpSyncToken ex_home (Inr 8)]
   \<and> ex_user \<noteq> ex_home
   \<and> deleteCalendar_finish ex_env ex_delete_home ex_home ''/calendars/user/home'' ex_user
        (new_ResponseQueue ''/calendars/user/home'' ''DELETE'' (Status NO_CONTENT)) [] =
       (Inr (Status NO_CONTENT),
        [IsShared ex_home (Inr False), BumpSyncToken ex_home (Inr 8),
         Quota ex_home (Inr (Some 1000)), QuotaSize ex_home (Inr 120),
         Delete ''/calendars/user/home'' ex_home ''infinity'' (Inr (Status NO_CONTENT)),
         QuotaSizeAdjust ex_home (- 120) (Inr ()),
         DeletedCalendar ex_home (Inr ())])
   \<and> filter (\<lambda>ev. \<exists>z. ev = BumpSyncToken ex_home z)
        (snd (deleteCalendar_finish ex_env ex_delete_home ex_home ''/calendars/user/home'' ex_user
                (new_ResponseQueue ''/calendars/user/home'' ''DELETE'' (Status NO_CONTENT)) []))
       = [BumpSyncToken ex_home (Inr 8)]"
  using sync_token_bumps
    [where c=ex_home and y="Inr 8" and env=ex_env and self=ex_delete_event and delresource=ex_event
       and deluri="''/calendars/user/home/event1.ics''" and parent=ex_home and h="[]"]
    sync_token_bumps
    [where c=ex_home and y="Inr 8" and env=ex_env and self=ex_delete_home and delresource=ex_home
       and deluri="''/calendars/user/home''" and parent=ex_user and h="[]" and names="[]"
       and resp="Status NO_CONTENT" and own_response="Status NO_CONTENT"
       and errors="new_ResponseQueue ''/calendars/user/home'' ''DELETE'' (Status NO_CONTENT)"]
    sync_token_bumps
    [where env="ex_env\<lparr>fileop_delete := (\<lambda>h u r d. Inl (OtherError ''permission denied''))\<rparr>"
       and self=ex_delete_home and delresource=ex_home and deluri="''/calendars/user/home''"
       and parent=ex_user and h="[]" and revision=8
       and a="Inl (OtherError ''permission denied'')" and c=ex_home and y="Inr 8"
       and errors="new_ResponseQueue ''/calendars/user/home'' ''DELETE'' (Status NO_CONTENT)"]
  by (simp add: deleteCalendar_def deleteCalendar_finish_def deleteResource_def call_apply
      deleteCalendarResource_def deleteCalendarResource_setup_def deleteCalendarResource_body_def
      validIfScheduleMatch_def try_finally_apply try_except_MemcacheLockTimeoutError_apply
      andThen_deleteResource new_ResponseQueue_def ResponseQueue_response_def merge_errors_def
      ex_env_def ex_delete_home_def ex_delete_event_def ex_home_def ex_user_def ex_event_def)

text \<open>
  The claim as the spec words it lets the collection's token move only when the
  removal succeeds. In the run below the removal raises, and the token has
  been bumped before.
\<close>

theorem sync_token_bumped_before_failed_removal_counterexample:
  "deleteCalendar
     (ex_env\<lparr>fileop_delete := (\<lambda>h u r d. Inl (OtherError ''permission denied''))\<rparr>)
     ex_delete_home ex_home ''/calendars/user/home'' ex_user [] =
   (Inl (OtherError ''permission denied''),
    [IsDefaultCalendar ex_home (Inr False), IsVirtualShare ex_home (Inr False),
     ListChildren ex_home (Inr []), IsShared ex_home (Inr False),
     BumpSyncToken ex_home (Inr 8),
     Quota ex_home (Inr (Some 1000)), QuotaSize ex_home (Inr 120),
     Delete ''/calendars/user/home'' ex_home ''infinity'' (Inl (OtherError ''permission denied''))])"
  by (simp add: deleteCalendar_def deleteCalendar_finish_def deleteResource_def call_apply
      andThen_deleteResource new_ResponseQueue_def ex_env_def ex_delete_home_def)

end
